theory Spec2Isabelle
  imports Main "HOL-Library.Word"
begin

section \<open>The autograd profiler (torch/csrc/autograd/profiler.cpp)\<close>

text \<open>
  A shallow embedding of the profiler: the per-session state
  (\<open>ProfilerThreadLocalState\<close>), the thread-local nesting counter and the
  callbacks that hang on it, \<open>enableProfiler\<close>/\<open>disableProfiler\<close>, the setter
  registered for \<open>ThreadLocalSetting::PROFILER\<close>, \<open>Event::cuda_elapsed_us\<close>
  and \<open>RecordProfile::processEvents\<close>.

  A C++ exception does not roll anything back, so every operation that can throw
  returns the error \<^emph>\<open>together with\<close> the state it leaves behind.
\<close>

subsection \<open>Data model\<close>

datatype ProfilerState = Disabled | CPU | CUDA | NVTX

record ProfilerConfig =
  state :: ProfilerState
  report_input_shapes :: bool

datatype EventKind = Mark | PushRange | PopRange

text \<open>
  The class \<open>Event\<close> is declared in profiler.h; its members are taken from their
  uses in profiler.cpp (\<open>kind_\<close>, \<open>name_\<close>, \<open>thread_id_\<close>, \<open>shapes_\<close>, \<open>cpu_ns_\<close>,
  \<open>event\<close>, \<open>device_\<close>). A null \<open>event\<close> pointer is \<open>None\<close>; \<open>has_cuda\<close> tests it.
  Thread ids are \<open>uint16_t\<close>; sizes, sequence numbers and times are \<open>int64_t\<close>
  values on which the file does no arithmetic that could overflow.
\<close>

record Event =
  ev_kind :: EventKind
  ev_name :: string
  thread_id :: "16 word"
  shapes :: "int list list"
  cpu_ns :: int
  event :: "nat option"
  device :: int

definition has_cuda :: "Event \<Rightarrow> bool" where
  "has_cuda e = (event e \<noteq> None)"

text \<open>
  The errors the file raises:
  \<^item> \<open>NVTXUnavailable\<close>: TORCH_CHECK in \<open>enableProfiler\<close>,
    "Can't use NVTX profiler - PyTorch was compiled without CUDA";
  \<^item> \<open>ProfilerNotRunning\<close>: TORCH_CHECK in \<open>disableProfiler\<close>,
    "Can't disable profiler when it's not running";
  \<^item> \<open>NotRecordedForCUDA\<close>: \<open>std::logic_error\<close>, "Events were not recorded for CUDA";
  \<^item> \<open>NotSameDevice\<close>: \<open>std::logic_error\<close>, "Events are not on the same device";
  \<^item> \<open>CouldNotOpenFile\<close>: TORCH_CHECK in \<open>processEvents\<close>, "could not open file";
  \<^item> \<open>CouldNotFindStart\<close>: TORCH_CHECK in \<open>processEvents\<close>, "could not find start?";
  \<^item> \<open>BackOfEmptyStack\<close>: \<open>stack.back()\<close> on an empty vector in \<open>processEvents\<close>,
    undefined behaviour in C++; the model stops there.
\<close>

datatype error =
    NVTXUnavailable
  | ProfilerNotRunning
  | NotRecordedForCUDA
  | NotSameDevice
  | CouldNotOpenFile
  | CouldNotFindStart
  | BackOfEmptyStack

subsection \<open>The device-timing backend and the ambient environment\<close>

text \<open>
  Modelled from the spec: the device-timing backend \<open>CUDAStubs\<close> (declared in
  profiler.h, implemented outside this file). The spec lists its primitives
  (\<open>is_available\<close>, \<open>begin_range\<close>, \<open>end_range\<close>, \<open>point_mark\<close>, \<open>record\<close>,
  \<open>elapsed\<close>, \<open>synchronize\<close>, \<open>for_each_device\<close>). The backend is described by
  whether it reports itself available and by the devices \<open>onEachDevice\<close> visits;
  every call made to it is appended to a log.
\<close>

record CUDAStubs =
  stub_enabled :: bool
  stub_devices :: "int list"

datatype stub_call =
    NvtxMarkA string
  | NvtxRangePushA string
  | NvtxRangePop
  | Synchronize
  | RecordCall int

text \<open>
  What the profiler reads from its surroundings: the registered backend
  (\<open>cuda_stubs\<close>), the calls made to it, \<open>RecordFunction::currentThreadId()\<close>,
  the clock read by \<open>getTime()\<close>, the device that is current, and the next
  device-event handle the backend hands out.
\<close>

record env =
  cuda_stubs :: CUDAStubs
  stub_calls :: "stub_call list"
  currentThreadId :: "16 word"
  getTime :: int
  current_device :: int
  next_event :: nat

definition stub_call :: "stub_call \<Rightarrow> env \<Rightarrow> env" where
  "stub_call c e = e\<lparr>stub_calls := stub_calls e @ [c]\<rparr>"

text \<open>
  Modelled from the spec: \<open>cuda_stubs->record(&device_, &event, &cpu_ns_)\<close>
  (the spec's \<open>record(out_handle, out_device, out_cpu_time)\<close>): the handle is set
  when device timing was requested, together with the device and the CPU time.
\<close>

definition stubs_record :: "Event \<Rightarrow> env \<Rightarrow> Event \<times> env" where
  "stubs_record ev e =
     (ev\<lparr>device := current_device e, event := Some (next_event e), cpu_ns := getTime e\<rparr>,
      stub_call (RecordCall (current_device e)) (e\<lparr>next_event := Suc (next_event e)\<rparr>))"

text \<open>\<open>Event::record(bool record_cuda)\<close>, lines 404-410.\<close>

definition Event_record :: "bool \<Rightarrow> Event \<Rightarrow> env \<Rightarrow> Event \<times> env" where
  "Event_record record_cuda ev e =
     (if record_cuda then stubs_record ev e
      else (ev\<lparr>cpu_ns := getTime e\<rparr>, e))"

text \<open>
  The constructor \<open>Event(kind, name, thread_id, record_cuda, shapes)\<close> of
  profiler.h: it stores its arguments and calls \<open>record(record_cuda)\<close>; the
  device is -1 and the handle null until a device record sets them.
\<close>

definition new_Event ::
  "EventKind \<Rightarrow> string \<Rightarrow> 16 word \<Rightarrow> bool \<Rightarrow> int list list \<Rightarrow> env \<Rightarrow> Event \<times> env" where
  "new_Event k n tid record_cuda shp e =
     Event_record record_cuda
       \<lparr>ev_kind = k, ev_name = n, thread_id = tid, shapes = shp,
        cpu_ns = 0, event = None, device = - 1\<rparr> e"

subsection \<open>ProfilerThreadLocalState\<close>

text \<open>
  \<open>event_lists_map_\<close> is an \<open>unordered_map\<close> from thread id to event list; the
  association list keeps the entries in the order they were created (the C++
  iteration order is unspecified).
\<close>

type_synonym thread_event_lists = "Event list list"

record ProfilerThreadLocalState =
  config :: ProfilerConfig
  event_lists_map :: "(16 word \<times> Event list) list"

definition new_ProfilerThreadLocalState :: "ProfilerConfig \<Rightarrow> ProfilerThreadLocalState" where
  "new_ProfilerThreadLocalState c = \<lparr>config = c, event_lists_map = []\<rparr>"

text \<open>\<open>getEventList\<close>, lines 239-249: find the calling thread's list, create it if absent.\<close>

definition getEventList :: "16 word \<Rightarrow> ProfilerThreadLocalState \<Rightarrow> ProfilerThreadLocalState" where
  "getEventList tid st =
     (case map_of (event_lists_map st) tid of
        Some l \<Rightarrow> st
      | None \<Rightarrow> st\<lparr>event_lists_map := event_lists_map st @ [(tid, [])]\<rparr>)"

text \<open>\<open>list.record(...)\<close> on the list \<open>getEventList\<close> returned: append one new event.\<close>

definition list_record ::
  "EventKind \<Rightarrow> string \<Rightarrow> 16 word \<Rightarrow> bool \<Rightarrow> int list list \<Rightarrow>
   ProfilerThreadLocalState \<times> env \<Rightarrow> ProfilerThreadLocalState \<times> env" where
  "list_record k n tid record_cuda shp = (\<lambda>(st, e).
     (let st1 = getEventList (currentThreadId e) st;
          (ev, e1) = new_Event k n tid record_cuda shp e
      in (st1\<lparr>event_lists_map :=
                map (\<lambda>(t, l). if t = currentThreadId e then (t, l @ [ev]) else (t, l))
                    (event_lists_map st1)\<rparr>,
          e1)))"

text \<open>\<open>consolidate\<close>, lines 140-148: one sequence of events per thread.\<close>

definition consolidate :: "ProfilerThreadLocalState \<Rightarrow> thread_event_lists" where
  "consolidate st = map snd (event_lists_map st)"

text \<open>The events the given thread has recorded in a session (none when it has no list).\<close>

definition events_of :: "16 word \<Rightarrow> ProfilerThreadLocalState \<Rightarrow> Event list" where
  "events_of tid st = (case map_of (event_lists_map st) tid of None \<Rightarrow> [] | Some l \<Rightarrow> l)"

text \<open>\<open>mark\<close>, lines 150-167.\<close>

definition mark ::
  "string \<Rightarrow> bool \<Rightarrow> ProfilerThreadLocalState \<times> env \<Rightarrow> ProfilerThreadLocalState \<times> env" where
  "mark name include_cuda = (\<lambda>(st, e).
     if state (config st) = Disabled then (st, e)
     else if state (config st) = NVTX then (st, stub_call (NvtxMarkA name) e)
     else list_record Mark name (currentThreadId e)
            (include_cuda \<and> state (config st) = CUDA) [] (st, e))"

text \<open>Printing an \<open>int64_t\<close> into a \<open>std::stringstream\<close>: decimal, with a sign.\<close>

fun show_nat :: "nat \<Rightarrow> string" where
  "show_nat n = (if n < 10 then [char_of (48 + n)]
                 else show_nat (n div 10) @ [char_of (48 + n mod 10)])"

declare show_nat.simps [simp del]

definition show_int :: "int \<Rightarrow> string" where
  "show_int i = (if i < 0 then CHR ''-'' # show_nat (nat (- i)) else show_nat (nat i))"

text \<open>
  The two printing loops of \<open>pushRange\<close> (lines 185-201) write a separator after
  every element but the last.
\<close>

fun separated :: "string \<Rightarrow> string list \<Rightarrow> string" where
  "separated sep [] = []"
| "separated sep [x] = x"
| "separated sep (x # y # zs) = x @ sep @ separated sep (y # zs)"

definition shape_str :: "int list \<Rightarrow> string" where
  "shape_str shp =
     (if length shp > 0 then ''['' @ separated '', '' (map show_int shp) @ '']''
      else ''[]'')"

definition nvtx_message :: "string \<Rightarrow> string \<Rightarrow> int \<Rightarrow> int list list \<Rightarrow> string" where
  "nvtx_message name msg sequence_nr shps =
     (if sequence_nr \<ge> 0 \<or> length shps > 0 then
        (if sequence_nr \<ge> 0 then name @ msg @ show_int sequence_nr else [])
        @ (if length shps > 0
           then '', sizes = ['' @ separated '', '' (map shape_str shps) @ '']''
           else [])
      else name)"

text \<open>\<open>pushRange\<close>, lines 169-218.\<close>

definition pushRange ::
  "string \<Rightarrow> string \<Rightarrow> int \<Rightarrow> int list list \<Rightarrow>
   ProfilerThreadLocalState \<times> env \<Rightarrow> ProfilerThreadLocalState \<times> env" where
  "pushRange name msg sequence_nr shps = (\<lambda>(st, e).
     if state (config st) = Disabled then (st, e)
     else if state (config st) = NVTX
       then (st, stub_call (NvtxRangePushA (nvtx_message name msg sequence_nr shps)) e)
     else list_record PushRange name (currentThreadId e)
            (state (config st) = CUDA) shps (st, e))"

text \<open>\<open>popRange\<close>, lines 220-235.\<close>

definition popRange ::
  "ProfilerThreadLocalState \<times> env \<Rightarrow> ProfilerThreadLocalState \<times> env" where
  "popRange = (\<lambda>(st, e).
     if state (config st) = Disabled then (st, e)
     else if state (config st) = NVTX then (st, stub_call NvtxRangePop e)
     else list_record PopRange [] (currentThreadId e)
            (state (config st) = CUDA) [] (st, e))"

subsection \<open>Thread-local state of the profiler\<close>

text \<open>
  The state one thread sees: the PROFILER_STATE slot of \<open>ThreadLocalDebugInfo\<close>
  (innermost session first), \<open>profiler_nested_depth_\<close>, the callback pair of
  kind PROFILER (\<open>None\<close> when not installed, otherwise its \<open>needs_inputs\<close>), the
  thread-local inclusion of \<open>DispatchKey::Profiler\<close>, and the environment.
  Session objects are held by value: no property below depends on two threads
  sharing one session object. The depth is an \<open>int64_t\<close> that moves by one per
  call; it is an \<open>int\<close> here, and may go below 0 as it may in the source.
\<close>

record tls =
  debug_info :: "ProfilerThreadLocalState list"
  profiler_nested_depth :: int
  callbacks :: "bool option"
  dispatch_key_included :: bool
  environment :: env

text \<open>
  Modelled from the spec: \<open>at::ThreadLocalDebugInfo\<close> (section 4.1, the Scoped
  Context Registry), which is not part of this file. \<open>push\<close> installs a value
  and shadows the previous one, \<open>pop\<close> removes and returns the most recent one,
  \<open>get\<close> returns the current one or nothing; \<open>pop\<close> on an empty slot is the
  no-op the spec allows and returns nothing.
\<close>

definition ThreadLocalDebugInfo_push :: "ProfilerThreadLocalState \<Rightarrow> tls \<Rightarrow> tls" where
  "ThreadLocalDebugInfo_push st w = w\<lparr>debug_info := st # debug_info w\<rparr>"

definition ThreadLocalDebugInfo_pop :: "tls \<Rightarrow> ProfilerThreadLocalState option \<times> tls" where
  "ThreadLocalDebugInfo_pop w =
     (case debug_info w of
        [] \<Rightarrow> (None, w)
      | st # rest \<Rightarrow> (Some st, w\<lparr>debug_info := rest\<rparr>))"

definition ThreadLocalDebugInfo_get :: "tls \<Rightarrow> ProfilerThreadLocalState option" where
  "ThreadLocalDebugInfo_get w = (case debug_info w of [] \<Rightarrow> None | st # rest \<Rightarrow> Some st)"

text \<open>
  A method call on the session object that is current in the slot: the object
  is updated in place, the environment takes the effects.
\<close>

definition on_current ::
  "(ProfilerThreadLocalState \<times> env \<Rightarrow> ProfilerThreadLocalState \<times> env) \<Rightarrow> tls \<Rightarrow> tls" where
  "on_current f w =
     (case debug_info w of
        [] \<Rightarrow> w
      | st # rest \<Rightarrow>
          (let (st1, e1) = f (st, environment w)
           in w\<lparr>debug_info := st1 # rest, environment := e1\<rparr>))"

text \<open>
  Modelled from the spec: \<open>pushCallback\<close> and \<open>removeCallback\<close> of the
  Instrumentation Callback Registry (section 4.3), which is not part of this
  file: installing under the profiler's tag replaces, never duplicates;
  uninstalling removes the pair.
\<close>

definition pushCallback :: "bool \<Rightarrow> tls \<Rightarrow> tls" where
  "pushCallback needs_inputs w = w\<lparr>callbacks := Some needs_inputs\<rparr>"

definition removeCallback :: "tls \<Rightarrow> tls" where
  "removeCallback w = w\<lparr>callbacks := None\<rparr>"

text \<open>\<open>c10::impl::tls_set_dispatch_key_included(DispatchKey::Profiler, b)\<close>.\<close>

definition tls_set_dispatch_key_included :: "bool \<Rightarrow> tls \<Rightarrow> tls" where
  "tls_set_dispatch_key_included b w = w\<lparr>dispatch_key_included := b\<rparr>"

subsection \<open>The callback pair\<close>

datatype Tensor = UndefinedTensor | DefinedTensor (sizes: "int list")

datatype IValue = TensorValue Tensor | OtherValue

record RecordFunction =
  fn_name :: string
  seqNr :: int
  inputs :: "IValue list"

text \<open>The body of the loop over \<open>fn.inputs()\<close>, lines 270-281.\<close>

fun input_size :: "IValue \<Rightarrow> int list" where
  "input_size OtherValue = []"
| "input_size (TensorValue UndefinedTensor) = []"
| "input_size (TensorValue (DefinedTensor s)) = s"

text \<open>The on-enter callback of \<open>pushProfilingCallbacks\<close>, lines 259-287.\<close>

definition start_callback :: "bool \<Rightarrow> RecordFunction \<Rightarrow> tls \<Rightarrow> tls" where
  "start_callback needs_inputs fn w =
     (case ThreadLocalDebugInfo_get w of
        None \<Rightarrow> w
      | Some st \<Rightarrow>
          if state (config st) = Disabled then w
          else
            (let msg = (if seqNr fn \<ge> 0 then '', seq = '' else [])
             in if needs_inputs
                then on_current (pushRange (fn_name fn) msg (seqNr fn)
                                   (map input_size (inputs fn))) w
                else on_current (pushRange (fn_name fn) msg (seqNr fn) []) w))"

text \<open>The on-exit callback, lines 288-295.\<close>

definition end_callback :: "RecordFunction \<Rightarrow> tls \<Rightarrow> tls" where
  "end_callback fn w =
     (case ThreadLocalDebugInfo_get w of
        None \<Rightarrow> w
      | Some st \<Rightarrow>
          if state (config st) = Disabled then w
          else on_current popRange w)"

text \<open>\<open>pushProfilingCallbacks\<close> and \<open>removeProfilingCallbacks\<close>, lines 257-303.\<close>

definition pushProfilingCallbacks :: "bool \<Rightarrow> tls \<Rightarrow> tls" where
  "pushProfilingCallbacks needs_inputs w = pushCallback needs_inputs w"

definition removeProfilingCallbacks :: "tls \<Rightarrow> tls" where
  "removeProfilingCallbacks w = removeCallback w"

text \<open>
  Modelled from the spec: what the surrounding runtime (\<open>RecordFunction\<close>, not
  part of this file) does at an instrumented scope boundary (section 4.3): it
  invokes the installed callback pair, on-enter at entry and on-exit at exit.
  The scope is one of the categories the pair is installed for (FUNCTION and
  USER_SCOPE, line 297).
\<close>

definition scope_enter :: "RecordFunction \<Rightarrow> tls \<Rightarrow> tls" where
  "scope_enter fn w =
     (case callbacks w of None \<Rightarrow> w | Some needs_inputs \<Rightarrow> start_callback needs_inputs fn w)"

definition scope_exit :: "RecordFunction \<Rightarrow> tls \<Rightarrow> tls" where
  "scope_exit fn w =
     (case callbacks w of None \<Rightarrow> w | Some needs_inputs \<Rightarrow> end_callback fn w)"

subsection \<open>The setting registered for ThreadLocalSetting::PROFILER\<close>

text \<open>A \<open>SettingValue\<close> carries an \<open>int64_t\<close>; lines 308-312 and 313-329.\<close>

definition profiler_getter :: "tls \<Rightarrow> int" where
  "profiler_getter w = (if profiler_nested_depth w > 0 then 1 else 0)"

definition profiler_setter :: "int \<Rightarrow> tls \<Rightarrow> tls" where
  "profiler_setter v w =
     (let to_push = (v \<noteq> 0);
          w1 = (if to_push
                then (let w0 = (if profiler_nested_depth w = 0
                                then pushProfilingCallbacks False w else w)
                      in w0\<lparr>profiler_nested_depth := profiler_nested_depth w0 + 1\<rparr>)
                else w)
      in if \<not> to_push
         then (let w2 = w1\<lparr>profiler_nested_depth := profiler_nested_depth w1 - 1\<rparr>
               in if profiler_nested_depth w2 = 0 then removeProfilingCallbacks w2 else w2)
         else w1)"

text \<open>
  Modelled from the spec: the start of a spawned task (sections 4.1 and 4.2).
  The values of the registry visible to the parent at spawn time are copied
  into the thread that runs the task, and every registered setter is replayed
  there with the value its getter returned on the parent.
\<close>

definition spawn_task :: "tls \<Rightarrow> tls \<Rightarrow> tls" where
  "spawn_task parent worker =
     profiler_setter (profiler_getter parent) (worker\<lparr>debug_info := debug_info parent\<rparr>)"

subsection \<open>enableProfiler and disableProfiler\<close>

definition kCUDAWarmupStart :: nat where
  "kCUDAWarmupStart = 5"

text \<open>
  Modelled from the spec: \<open>cuda_stubs->onEachDevice(op)\<close> and
  \<open>cuda_stubs->synchronize()\<close> (the spec's \<open>for_each_device\<close> and \<open>synchronize\<close>):
  \<open>op\<close> runs once per device of the backend with that device current, and the
  device that was current before is current again afterwards.
\<close>

definition onEachDevice ::
  "(int \<Rightarrow> ProfilerThreadLocalState \<times> env \<Rightarrow> ProfilerThreadLocalState \<times> env) \<Rightarrow>
   ProfilerThreadLocalState \<times> env \<Rightarrow> ProfilerThreadLocalState \<times> env" where
  "onEachDevice op = (\<lambda>(st, e).
     (let (st1, e1) =
            fold (\<lambda>d (s, x). op d (s, x\<lparr>current_device := d\<rparr>))
                 (stub_devices (cuda_stubs e)) (st, e)
      in (st1, e1\<lparr>current_device := current_device e\<rparr>)))"

definition synchronize ::
  "ProfilerThreadLocalState \<times> env \<Rightarrow> ProfilerThreadLocalState \<times> env" where
  "synchronize = (\<lambda>(st, e). (st, stub_call Synchronize e))"

text \<open>\<open>enableProfiler\<close>, lines 350-381.\<close>

definition enableProfiler :: "ProfilerConfig \<Rightarrow> tls \<Rightarrow> error option \<times> tls" where
  "enableProfiler new_config w =
     (if \<not> (state new_config \<noteq> NVTX \<or> stub_enabled (cuda_stubs (environment w)))
      then (Some NVTXUnavailable, w)
      else
        (let w1 = ThreadLocalDebugInfo_push (new_ProfilerThreadLocalState new_config) w;
             w2 = (if profiler_nested_depth w1 = 0
                   then tls_set_dispatch_key_included True
                          (pushProfilingCallbacks (report_input_shapes new_config) w1)
                   else w1);
             w3 = w2\<lparr>profiler_nested_depth := profiler_nested_depth w2 + 1\<rparr>;
             w4 = (if state new_config = CUDA
                   then on_current
                          (onEachDevice (\<lambda>d. mark ''__cuda_start_event'' True)
                           \<circ> ((onEachDevice (\<lambda>d x. synchronize (mark ''__cuda_startup'' True x)))
                                ^^ kCUDAWarmupStart)) w3
                   else w3)
         in (None, on_current (mark ''__start_profile'' False) w4)))"

text \<open>\<open>disableProfiler\<close>, lines 383-402.\<close>

definition disableProfiler :: "tls \<Rightarrow> (error + thread_event_lists) \<times> tls" where
  "disableProfiler w =
     (let (state_ptr, w1) = ThreadLocalDebugInfo_pop w
      in case state_ptr of
           None \<Rightarrow> (Inl ProfilerNotRunning, w1)
         | Some st \<Rightarrow>
             if state (config st) = Disabled then (Inl ProfilerNotRunning, w1)
             else
               (let w2 = w1\<lparr>profiler_nested_depth := profiler_nested_depth w1 - 1\<rparr>;
                    w3 = (if profiler_nested_depth w2 = 0
                          then removeProfilingCallbacks
                                 (tls_set_dispatch_key_included False w2)
                          else w2)
                in if state (config st) = NVTX then (Inr [], w3)
                   else
                     (let (st1, e1) = mark ''__stop_profile'' True (st, environment w3)
                      in (Inr (consolidate st1), w3\<lparr>environment := e1\<rparr>))))"

text \<open>\<open>registerCUDAMethods\<close>, lines 338-340, and the default stubs of line 22.\<close>

definition registerCUDAMethods :: "CUDAStubs \<Rightarrow> tls \<Rightarrow> tls" where
  "registerCUDAMethods stubs w = w\<lparr>environment := (environment w)\<lparr>cuda_stubs := stubs\<rparr>\<rparr>"

definition default_stubs :: CUDAStubs where
  "default_stubs = \<lparr>stub_enabled = False, stub_devices = []\<rparr>"

text \<open>\<open>profilerEnabled\<close>, lines 344-348.\<close>

definition profilerEnabled :: "tls \<Rightarrow> bool" where
  "profilerEnabled w =
     (case ThreadLocalDebugInfo_get w of
        None \<Rightarrow> False
      | Some st \<Rightarrow> state (config st) \<noteq> Disabled)"

subsection \<open>Event::cuda_elapsed_us\<close>

text \<open>
  Lines 412-420. \<open>cuda_stubs->elapsed\<close> is the backend's elapsed-time primitive
  on two handles and is a parameter; \<open>this\<close> is the event the method is called on.
  Both handles are present once the first check has passed, so the last branch
  of the \<open>case\<close> is never taken.
\<close>

definition cuda_elapsed_us :: "(nat \<Rightarrow> nat \<Rightarrow> 'd) \<Rightarrow> Event \<Rightarrow> Event \<Rightarrow> error + 'd" where
  "cuda_elapsed_us elapsed this e =
     (if \<not> has_cuda e \<or> \<not> has_cuda this then Inl NotRecordedForCUDA
      else if device e \<noteq> device this then Inl NotSameDevice
      else (case (event this, event e) of
              (Some h1, Some h2) \<Rightarrow> Inr (elapsed h1 h2)
            | _ \<Rightarrow> Inl NotRecordedForCUDA))"

subsection \<open>RecordProfile::processEvents\<close>

text \<open>
  The output stream \<open>out_\<close>: whether it is in a good state, and what has been
  written to it.
\<close>

record ostream =
  good :: bool
  contents :: string

definition put_str :: "string \<Rightarrow> ostream \<Rightarrow> ostream" where
  "put_str s out = out\<lparr>contents := contents out @ s\<rparr>"

text \<open>
  The bindings \<open>processEvents\<close> puts into the \<open>jit::TemplateEnv\<close>: "name", "ts",
  "dur" and "tid". \<open>'d\<close> is the type of microsecond values (\<open>double\<close> in C++).
\<close>

record 'd TemplateEnv =
  t_name :: string
  t_ts :: 'd
  t_dur :: 'd
  t_tid :: "16 word"

text \<open>\<open>event_template\<close>, lines 425-434.\<close>

definition event_template :: string where
  "event_template =
     ''\<newline>{\<newline>''
     @ ''  '' @ [CHR 0x22] @ ''name'' @ [CHR 0x22] @ '': '' @ [CHR 0x22] @ ''${name}'' @ [CHR 0x22] @ '',\<newline>''
     @ ''  '' @ [CHR 0x22] @ ''ph'' @ [CHR 0x22] @ '': '' @ [CHR 0x22] @ ''X'' @ [CHR 0x22] @ '',\<newline>''
     @ ''  '' @ [CHR 0x22] @ ''ts'' @ [CHR 0x22] @ '': ${ts},\<newline>''
     @ ''  '' @ [CHR 0x22] @ ''dur'' @ [CHR 0x22] @ '': ${dur},\<newline>''
     @ ''  '' @ [CHR 0x22] @ ''tid'' @ [CHR 0x22] @ '': ${tid},\<newline>''
     @ ''  '' @ [CHR 0x22] @ ''pid'' @ [CHR 0x22] @ '': '' @ [CHR 0x22] @ ''CPU Functions'' @ [CHR 0x22] @ '',\<newline>''
     @ ''  '' @ [CHR 0x22] @ ''args'' @ [CHR 0x22] @ '': {}\<newline>''
     @ ''}''"

text \<open>
  \<open>Event::kind()\<close> of profiler.h names the kind of an event; \<open>processEvents\<close>
  compares the name with "push" and "pop".
\<close>

fun kind :: "Event \<Rightarrow> string" where
  "kind e = (case ev_kind e of Mark \<Rightarrow> ''mark'' | PushRange \<Rightarrow> ''push'' | PopRange \<Rightarrow> ''pop'')"

text \<open>
  The search for the start event, lines 467-473. Names are C strings, and two
  of them are equal exactly when \<open>strcmp\<close> returns 0.
\<close>

fun find_start :: "Event list \<Rightarrow> Event option" where
  "find_start [] = None"
| "find_start (e # es) = (if ev_name e = ''__start_profile'' then Some e else find_start es)"

text \<open>
  The loop of lines 478-495, on the stack of open ranges (the back of the
  vector is the end of the list), the flag \<open>first\<close> and the stream. The
  parameters are what the file takes from elsewhere: \<open>format\<close> is
  \<open>CodeTemplate::format\<close> applied to a template and its bindings, and
  \<open>cpu_elapsed_us a b\<close> is \<open>a->cpu_elapsed_us(*b)\<close> of profiler.h.
\<close>

fun process_loop ::
  "(string \<Rightarrow> 'd TemplateEnv \<Rightarrow> string) \<Rightarrow> (Event \<Rightarrow> Event \<Rightarrow> 'd) \<Rightarrow> Event \<Rightarrow>
   Event list \<Rightarrow> Event list \<times> bool \<times> ostream \<Rightarrow> error option \<times> Event list \<times> bool \<times> ostream" where
  "process_loop format cpu_elapsed_us start [] (stack, first, out) = (None, stack, first, out)"
| "process_loop format cpu_elapsed_us start (e # es) (stack, first, out) =
     (if kind e = ''push''
      then process_loop format cpu_elapsed_us start es (stack @ [e], first, out)
      else if kind e = ''pop''
      then (let out1 = (if \<not> first then put_str '',\<newline>'' out else out)
            in if stack = [] then (Some BackOfEmptyStack, stack, False, out1)
               else (let e_start = last stack;
                         stack1 = butlast stack;
                         tenv = \<lparr>t_name = ev_name e_start,
                                 t_ts = cpu_elapsed_us start e_start,
                                 t_dur = cpu_elapsed_us e_start e,
                                 t_tid = thread_id e_start\<rparr>
                     in process_loop format cpu_elapsed_us start es
                          (stack1, False, put_str (format event_template tenv) out1)))
      else process_loop format cpu_elapsed_us start es (stack, first, out))"

text \<open>\<open>processEvents\<close>, lines 465-497.\<close>

definition processEvents ::
  "(string \<Rightarrow> 'd TemplateEnv \<Rightarrow> string) \<Rightarrow> (Event \<Rightarrow> Event \<Rightarrow> 'd) \<Rightarrow>
   ostream \<Rightarrow> Event list \<Rightarrow> error option \<times> ostream" where
  "processEvents format cpu_elapsed_us out events =
     (if \<not> good out then (Some CouldNotOpenFile, out)
      else case find_start events of
             None \<Rightarrow> (Some CouldNotFindStart, out)
           | Some start \<Rightarrow>
               (case process_loop format cpu_elapsed_us start events
                       ([], True, put_str ''[\<newline>'' out) of
                  (Some err, stack, first, out1) \<Rightarrow> (Some err, out1)
                | (None, stack, first, out1) \<Rightarrow> (None, put_str '']\<newline>'' out1)))"

subsection \<open>What the exporter is expected to emit\<close>

text \<open>
  The spec's account of a well-nested event sequence and of its records,
  independent of the exporter's stack: a sequence is empty, or a Mark followed
  by a well-nested sequence, or a PushRange, a well-nested sequence, the
  PopRange that matches the PushRange, and a well-nested sequence. A matched
  pair gives one record with the PushRange's name, the elapsed time from the
  start event to the PushRange, the elapsed time from the PushRange to the
  PopRange, and the PushRange's thread id; records come in the order of their
  PopRanges.
\<close>

inductive well_nested_records ::
  "(Event \<Rightarrow> Event \<Rightarrow> 'd) \<Rightarrow> Event \<Rightarrow> Event list \<Rightarrow> 'd TemplateEnv list \<Rightarrow> bool"
  for elapsed :: "Event \<Rightarrow> Event \<Rightarrow> 'd" and start :: Event where
  wn_empty: "well_nested_records elapsed start [] []"
| wn_mark: "ev_kind m = Mark \<Longrightarrow> well_nested_records elapsed start es rs \<Longrightarrow>
            well_nested_records elapsed start (m # es) rs"
| wn_range: "ev_kind p = PushRange \<Longrightarrow> ev_kind q = PopRange \<Longrightarrow>
             well_nested_records elapsed start inner rs1 \<Longrightarrow>
             well_nested_records elapsed start rest rs2 \<Longrightarrow>
             well_nested_records elapsed start (p # inner @ q # rest)
               (rs1 @ \<lparr>t_name = ev_name p, t_ts = elapsed start p,
                       t_dur = elapsed p q, t_tid = thread_id p\<rparr> # rs2)"

text \<open>The text of a sequence of records, given whether one is still the first.\<close>

fun emit :: "('r \<Rightarrow> string) \<Rightarrow> bool \<Rightarrow> 'r list \<Rightarrow> string" where
  "emit f first [] = []"
| "emit f first (r # rs) = (if first then [] else '',\<newline>'') @ f r @ emit f False rs"

subsection \<open>Runs of profiler operations on one thread\<close>

datatype op =
    Enable ProfilerConfig
  | Disable
  | Setter int
  | ScopeEnter RecordFunction
  | ScopeExit RecordFunction

fun step :: "op \<Rightarrow> tls \<Rightarrow> tls" where
  "step (Enable c) w = snd (enableProfiler c w)"
| "step Disable w = snd (disableProfiler w)"
| "step (Setter v) w = profiler_setter v w"
| "step (ScopeEnter fn) w = scope_enter fn w"
| "step (ScopeExit fn) w = scope_exit fn w"

text \<open>The nesting depth stays at 1 or more after every operation of the run.\<close>

fun stays_nested :: "op list \<Rightarrow> tls \<Rightarrow> bool" where
  "stays_nested [] w = True"
| "stays_nested (a # as) w =
     (profiler_nested_depth (step a w) \<ge> 1 \<and> stays_nested as (step a w))"

text \<open>The events the calling thread has recorded in the session that is current.\<close>

definition current_events :: "tls \<Rightarrow> Event list" where
  "current_events w =
     (case ThreadLocalDebugInfo_get w of
        None \<Rightarrow> []
      | Some st \<Rightarrow> events_of (currentThreadId (environment w)) st)"

text \<open>
  What the properties below look at in an event: its name, its kind, whether it
  carries a device handle, and its device.
\<close>

definition handle_view :: "Event \<Rightarrow> string \<times> EventKind \<times> bool \<times> int" where
  "handle_view ev = (ev_name ev, ev_kind ev, has_cuda ev, device ev)"

text \<open>
  For a session object and an environment: the view of what the calling
  thread has recorded, and the parts of both that recording leaves alone.
\<close>

definition recorded ::
  "ProfilerThreadLocalState \<times> env \<Rightarrow> (string \<times> EventKind \<times> bool \<times> int) list" where
  "recorded x = map handle_view (events_of (currentThreadId (snd x)) (fst x))"

definition frame ::
  "ProfilerThreadLocalState \<times> env \<Rightarrow> ProfilerConfig \<times> 16 word \<times> CUDAStubs" where
  "frame x = (config (fst x), currentThreadId (snd x), cuda_stubs (snd x))"

text \<open>
  The session object and the environment that a successful \<open>enableProfiler\<close>
  leaves behind, as lines 363-380 compute them from a new session object.
\<close>

definition started :: "ProfilerConfig \<Rightarrow> env \<Rightarrow> ProfilerThreadLocalState \<times> env" where
  "started c e =
     mark ''__start_profile'' False
       ((if state c = CUDA
         then onEachDevice (\<lambda>d. mark ''__cuda_start_event'' True)
              \<circ> ((onEachDevice (\<lambda>d x. synchronize (mark ''__cuda_startup'' True x)))
                   ^^ kCUDAWarmupStart)
         else id) (new_ProfilerThreadLocalState c, e))"

text \<open>
  Between two states, one scope entry has been recorded for the calling thread
  in the current session: the events are those of before and one more, a
  PushRange with the name of the scope and the given input shapes.
\<close>

definition entry_recorded :: "tls \<Rightarrow> tls \<Rightarrow> RecordFunction \<Rightarrow> int list list \<Rightarrow> bool" where
  "entry_recorded w w1 fn shp =
     (case rev (current_events w1) of
        [] \<Rightarrow> False
      | ev # before \<Rightarrow>
          rev before = current_events w \<and> ev_kind ev = PushRange \<and>
          ev_name ev = fn_name fn \<and> shapes ev = shp)"

subsection \<open>Concrete states\<close>

text \<open>
  A thread on which nothing has happened yet, with the default stubs
  registered, and the same thread after a backend with two devices registered.
\<close>

definition initial_env :: env where
  "initial_env =
     \<lparr>cuda_stubs = default_stubs, stub_calls = [], currentThreadId = 0,
      getTime = 0, current_device = 0, next_event = 0\<rparr>"

definition initial_tls :: tls where
  "initial_tls =
     \<lparr>debug_info = [], profiler_nested_depth = 0, callbacks = None,
      dispatch_key_included = False, environment = initial_env\<rparr>"

definition two_devices :: CUDAStubs where
  "two_devices = \<lparr>stub_enabled = True, stub_devices = [0, 1]\<rparr>"

definition cuda_tls :: tls where
  "cuda_tls = registerCUDAMethods two_devices initial_tls"

definition cpu_shapes :: ProfilerConfig where
  "cpu_shapes = \<lparr>state = CPU, report_input_shapes = True\<rparr>"

definition cpu_plain :: ProfilerConfig where
  "cpu_plain = \<lparr>state = CPU, report_input_shapes = False\<rparr>"

definition cuda_plain :: ProfilerConfig where
  "cuda_plain = \<lparr>state = CUDA, report_input_shapes = False\<rparr>"

definition nvtx_plain :: ProfilerConfig where
  "nvtx_plain = \<lparr>state = NVTX, report_input_shapes = False\<rparr>"

definition disabled_plain :: ProfilerConfig where
  "disabled_plain = \<lparr>state = Disabled, report_input_shapes = False\<rparr>"

definition matmul :: RecordFunction where
  "matmul = \<lparr>fn_name = ''matmul'', seqNr = 7,
             inputs = [TensorValue (DefinedTensor [2, 3]), OtherValue,
                       TensorValue UndefinedTensor]\<rparr>"

text \<open>
  Events for the exporter: a start mark, two nested ranges with a mark inside,
  and events that carry device handles. \<open>sample_elapsed\<close> and \<open>sample_format\<close>
  stand in for \<open>cpu_elapsed_us\<close> and \<open>CodeTemplate::format\<close> where a concrete
  run needs them.
\<close>

definition cpu_event :: "EventKind \<Rightarrow> string \<Rightarrow> int \<Rightarrow> Event" where
  "cpu_event k n t =
     \<lparr>ev_kind = k, ev_name = n, thread_id = 3, shapes = [], cpu_ns = t,
      event = None, device = - 1\<rparr>"

definition device_event :: "nat \<Rightarrow> int \<Rightarrow> Event" where
  "device_event h d =
     \<lparr>ev_kind = Mark, ev_name = ''__cuda_start_event'', thread_id = 3, shapes = [],
      cpu_ns = 0, event = Some h, device = d\<rparr>"

definition sample_trace :: "Event list" where
  "sample_trace =
     [cpu_event Mark ''__start_profile'' 1000,
      cpu_event PushRange ''outer'' 3000,
      cpu_event PushRange ''inner'' 4000,
      cpu_event Mark ''note'' 5000,
      cpu_event PopRange [] 6000,
      cpu_event PopRange [] 9000]"

definition sample_elapsed :: "Event \<Rightarrow> Event \<Rightarrow> int" where
  "sample_elapsed a b = (cpu_ns b - cpu_ns a) div 1000"

definition sample_format :: "string \<Rightarrow> int TemplateEnv \<Rightarrow> string" where
  "sample_format t b =
     t_name b @ '' '' @ show_int (t_ts b) @ '' '' @ show_int (t_dur b)
     @ '' '' @ show_nat (unat (t_tid b))"

definition good_stream :: ostream where
  "good_stream = \<lparr>good = True, contents = []\<rparr>"

section \<open>Properties\<close>

subsection \<open>What each operation does to depth, callbacks and dispatch flag\<close>

lemmas tls_ops =
  ThreadLocalDebugInfo_push_def ThreadLocalDebugInfo_pop_def ThreadLocalDebugInfo_get_def
  pushProfilingCallbacks_def removeProfilingCallbacks_def pushCallback_def removeCallback_def
  tls_set_dispatch_key_included_def

lemma on_current_frame [simp]:
  "profiler_nested_depth (on_current f w) = profiler_nested_depth w"
  "callbacks (on_current f w) = callbacks w"
  "dispatch_key_included (on_current f w) = dispatch_key_included w"
  by (simp_all add: on_current_def split: list.splits prod.splits)

lemma scope_frame [simp]:
  "profiler_nested_depth (scope_enter fn w) = profiler_nested_depth w"
  "callbacks (scope_enter fn w) = callbacks w"
  "profiler_nested_depth (scope_exit fn w) = profiler_nested_depth w"
  "callbacks (scope_exit fn w) = callbacks w"
  by (simp_all add: scope_enter_def scope_exit_def start_callback_def end_callback_def Let_def
        split: option.splits)

lemma enable_depth:
  "fst (enableProfiler c w) = None \<Longrightarrow>
   profiler_nested_depth (snd (enableProfiler c w)) = profiler_nested_depth w + 1"
  by (simp add: enableProfiler_def Let_def tls_ops split: if_splits)

lemma enable_callbacks:
  "fst (enableProfiler c w) = None \<Longrightarrow>
   callbacks (snd (enableProfiler c w)) =
     (if profiler_nested_depth w = 0 then Some (report_input_shapes c) else callbacks w)"
  by (auto simp add: enableProfiler_def Let_def tls_ops split: if_splits)

lemma enable_flag:
  "fst (enableProfiler c w) = None \<Longrightarrow>
   dispatch_key_included (snd (enableProfiler c w)) =
     (if profiler_nested_depth w = 0 then True else dispatch_key_included w)"
  by (auto simp add: enableProfiler_def Let_def tls_ops split: if_splits)

lemma enable_failed:
  "fst (enableProfiler c w) \<noteq> None \<Longrightarrow> snd (enableProfiler c w) = w"
  by (simp add: enableProfiler_def Let_def split: if_splits)

lemma enable_nested_callbacks:
  "profiler_nested_depth w \<noteq> 0 \<Longrightarrow> callbacks (snd (enableProfiler c w)) = callbacks w"
  by (auto simp add: enableProfiler_def Let_def tls_ops)

lemma disable_depth:
  "fst (disableProfiler w) = Inr r \<Longrightarrow>
   profiler_nested_depth (snd (disableProfiler w)) = profiler_nested_depth w - 1"
  by (auto simp add: disableProfiler_def Let_def tls_ops split: list.splits prod.splits if_splits)

lemma disable_callbacks:
  "fst (disableProfiler w) = Inr r \<Longrightarrow>
   callbacks (snd (disableProfiler w)) =
     (if profiler_nested_depth w = 1 then None else callbacks w)"
  by (auto simp add: disableProfiler_def Let_def tls_ops split: list.splits prod.splits if_splits)

lemma disable_flag:
  "fst (disableProfiler w) = Inr r \<Longrightarrow>
   dispatch_key_included (snd (disableProfiler w)) =
     (if profiler_nested_depth w = 1 then False else dispatch_key_included w)"
  by (auto simp add: disableProfiler_def Let_def tls_ops split: list.splits prod.splits if_splits)

lemma disable_failed:
  "fst (disableProfiler w) = Inl err \<Longrightarrow>
   profiler_nested_depth (snd (disableProfiler w)) = profiler_nested_depth w \<and>
   callbacks (snd (disableProfiler w)) = callbacks w \<and>
   dispatch_key_included (snd (disableProfiler w)) = dispatch_key_included w"
  by (auto simp add: disableProfiler_def Let_def tls_ops split: list.splits prod.splits if_splits)

lemma disable_depth_callbacks:
  "profiler_nested_depth (snd (disableProfiler w)) \<noteq> 0 \<Longrightarrow>
   callbacks (snd (disableProfiler w)) = callbacks w"
  by (auto simp add: disableProfiler_def Let_def tls_ops split: list.splits prod.splits if_splits)

lemma setter_push:
  "v \<noteq> 0 \<Longrightarrow>
   profiler_nested_depth (profiler_setter v w) = profiler_nested_depth w + 1 \<and>
   callbacks (profiler_setter v w) =
     (if profiler_nested_depth w = 0 then Some False else callbacks w) \<and>
   dispatch_key_included (profiler_setter v w) = dispatch_key_included w"
  by (simp add: profiler_setter_def Let_def tls_ops)

lemma setter_pop:
  "profiler_nested_depth (profiler_setter 0 w) = profiler_nested_depth w - 1 \<and>
   callbacks (profiler_setter 0 w) =
     (if profiler_nested_depth w = 1 then None else callbacks w) \<and>
   dispatch_key_included (profiler_setter 0 w) = dispatch_key_included w"
  by (simp add: profiler_setter_def Let_def tls_ops)

lemma setter_nested_callbacks:
  "profiler_nested_depth w \<noteq> 0 \<Longrightarrow> profiler_nested_depth (profiler_setter v w) \<noteq> 0 \<Longrightarrow>
   callbacks (profiler_setter v w) = callbacks w"
  by (auto simp add: profiler_setter_def Let_def tls_ops split: if_splits)

lemma spawn_callbacks:
  "profiler_nested_depth parent > 0 \<Longrightarrow> profiler_nested_depth worker = 0 \<Longrightarrow>
   callbacks (spawn_task parent worker) = Some False"
  by (simp add: spawn_task_def profiler_getter_def profiler_setter_def Let_def tls_ops)

text \<open>
  While the depth stays at 1 or more, no operation touches the callback pair:
  one step first, then any run, by induction on the run.
\<close>

lemma step_keeps_callbacks:
  "profiler_nested_depth w \<ge> 1 \<Longrightarrow> profiler_nested_depth (step a w) \<ge> 1 \<Longrightarrow>
   callbacks (step a w) = callbacks w"
proof (cases a)
  case (Enable c)
  assume "profiler_nested_depth w \<ge> 1"
  then have "profiler_nested_depth w \<noteq> 0" by simp
  then show ?thesis using Enable by (simp add: enable_nested_callbacks)
next
  case Disable
  assume "profiler_nested_depth (step a w) \<ge> 1"
  then have "profiler_nested_depth (snd (disableProfiler w)) \<noteq> 0" using Disable by simp
  then show ?thesis using Disable by (simp add: disable_depth_callbacks)
next
  case (Setter v)
  assume "profiler_nested_depth w \<ge> 1" "profiler_nested_depth (step a w) \<ge> 1"
  then have "profiler_nested_depth w \<noteq> 0" "profiler_nested_depth (profiler_setter v w) \<noteq> 0"
    using Setter by simp_all
  then show ?thesis using Setter by (simp add: setter_nested_callbacks)
next
  case (ScopeEnter fn)
  then show ?thesis by simp
next
  case (ScopeExit fn)
  then show ?thesis by simp
qed

lemma run_keeps_callbacks:
  "profiler_nested_depth w \<ge> 1 \<Longrightarrow> stays_nested ops w \<Longrightarrow>
   callbacks (fold step ops w) = callbacks w"
proof (induction ops arbitrary: w)
  case Nil
  then show ?case by simp
next
  case (Cons a ops)
  from Cons.prems have d: "profiler_nested_depth (step a w) \<ge> 1"
    and s: "stays_nested ops (step a w)"
    by simp_all
  have "callbacks (fold step ops (step a w)) = callbacks (step a w)"
    using Cons.IH [OF d s] .
  also have "\<dots> = callbacks w"
    using step_keeps_callbacks [OF Cons.prems(1) d] .
  finally show ?case by simp
qed

subsection \<open>The claims\<close>

text \<open>
  C1. When \<open>disableProfiler\<close> is called while no session is registered in the
  PROFILER slot of the calling thread, it fails with the usage error and the
  state it leaves is the state it found: registry, nesting depth, callback
  registry and dispatch flag are all unchanged.
\<close>

theorem disable_without_session:
  "debug_info w = [] \<Longrightarrow> disableProfiler w = (Inl ProfilerNotRunning, w)"
  by (simp add: disableProfiler_def ThreadLocalDebugInfo_pop_def)

theorem disable_without_session_witness:
  "debug_info initial_tls = [] \<and>
   disableProfiler initial_tls = (Inl ProfilerNotRunning, initial_tls)"
  using disable_without_session [of initial_tls] by (simp add: initial_tls_def)

text \<open>
  A session whose config is Disabled is registered, and is another matter:
  the check fails after the pop, so the slot has lost its entry when the error
  is raised.
\<close>

lemma disable_disabled_session:
  "debug_info w = st # rest \<Longrightarrow> state (config st) = Disabled \<Longrightarrow>
   disableProfiler w = (Inl ProfilerNotRunning, w\<lparr>debug_info := rest\<rparr>)"
  by (simp add: disableProfiler_def ThreadLocalDebugInfo_pop_def)

text \<open>
  C2. When \<open>enableProfiler\<close> is called with NVTX mode while the backend reports
  itself unavailable, it fails with the configuration error and the state it
  leaves is the state it found: no session is pushed, the depth is not
  incremented, no callbacks are installed and the dispatch flag is not set.
\<close>

theorem enable_nvtx_unavailable:
  "state c = NVTX \<Longrightarrow> \<not> stub_enabled (cuda_stubs (environment w)) \<Longrightarrow>
   enableProfiler c w = (Some NVTXUnavailable, w)"
  by (simp add: enableProfiler_def)

theorem enable_nvtx_unavailable_witness:
  "state nvtx_plain = NVTX \<and> \<not> stub_enabled (cuda_stubs (environment initial_tls)) \<and>
   enableProfiler nvtx_plain initial_tls = (Some NVTXUnavailable, initial_tls)"
proof -
  have a: "state nvtx_plain = NVTX"
    by (simp add: nvtx_plain_def)
  have b: "\<not> stub_enabled (cuda_stubs (environment initial_tls))"
    by (simp add: initial_tls_def initial_env_def default_stubs_def)
  from a b enable_nvtx_unavailable [OF a b] show ?thesis by simp
qed

text \<open>
  C3, as amended. The callback pair is installed only when the nesting depth
  goes from 0 to 1 and removed only when it goes from 1 to 0, at all three
  places that change the depth (\<open>enableProfiler\<close>, \<open>disableProfiler\<close> and the
  setter replayed on a spawned task); a step that fails changes neither. The
  dispatch flag is set and cleared at exactly those transitions by
  \<open>enableProfiler\<close> and \<open>disableProfiler\<close>; the setter never changes the flag.
\<close>

theorem callbacks_follow_depth_transitions:
  "(if fst (enableProfiler c w) = None
    then profiler_nested_depth (snd (enableProfiler c w)) = profiler_nested_depth w + 1 \<and>
         (if profiler_nested_depth w = 0
          then callbacks (snd (enableProfiler c w)) = Some (report_input_shapes c) \<and>
               dispatch_key_included (snd (enableProfiler c w))
          else callbacks (snd (enableProfiler c w)) = callbacks w \<and>
               dispatch_key_included (snd (enableProfiler c w)) = dispatch_key_included w)
    else snd (enableProfiler c w) = w) \<and>
   (case fst (disableProfiler w1) of
      Inr r \<Rightarrow>
        profiler_nested_depth (snd (disableProfiler w1)) = profiler_nested_depth w1 - 1 \<and>
        (if profiler_nested_depth w1 = 1
         then callbacks (snd (disableProfiler w1)) = None \<and>
              \<not> dispatch_key_included (snd (disableProfiler w1))
         else callbacks (snd (disableProfiler w1)) = callbacks w1 \<and>
              dispatch_key_included (snd (disableProfiler w1)) = dispatch_key_included w1)
    | Inl err \<Rightarrow>
        profiler_nested_depth (snd (disableProfiler w1)) = profiler_nested_depth w1 \<and>
        callbacks (snd (disableProfiler w1)) = callbacks w1 \<and>
        dispatch_key_included (snd (disableProfiler w1)) = dispatch_key_included w1) \<and>
   (if v \<noteq> 0
    then profiler_nested_depth (profiler_setter v w2) = profiler_nested_depth w2 + 1 \<and>
         callbacks (profiler_setter v w2) =
           (if profiler_nested_depth w2 = 0 then Some False else callbacks w2)
    else profiler_nested_depth (profiler_setter v w2) = profiler_nested_depth w2 - 1 \<and>
         callbacks (profiler_setter v w2) =
           (if profiler_nested_depth w2 = 1 then None else callbacks w2)) \<and>
   dispatch_key_included (profiler_setter v w2) = dispatch_key_included w2"
proof -
  have en: "if fst (enableProfiler c w) = None
    then profiler_nested_depth (snd (enableProfiler c w)) = profiler_nested_depth w + 1 \<and>
         (if profiler_nested_depth w = 0
          then callbacks (snd (enableProfiler c w)) = Some (report_input_shapes c) \<and>
               dispatch_key_included (snd (enableProfiler c w))
          else callbacks (snd (enableProfiler c w)) = callbacks w \<and>
               dispatch_key_included (snd (enableProfiler c w)) = dispatch_key_included w)
    else snd (enableProfiler c w) = w"
    by (simp add: enable_depth enable_callbacks enable_flag enable_failed)
  have dis: "case fst (disableProfiler w1) of
      Inr r \<Rightarrow>
        profiler_nested_depth (snd (disableProfiler w1)) = profiler_nested_depth w1 - 1 \<and>
        (if profiler_nested_depth w1 = 1
         then callbacks (snd (disableProfiler w1)) = None \<and>
              \<not> dispatch_key_included (snd (disableProfiler w1))
         else callbacks (snd (disableProfiler w1)) = callbacks w1 \<and>
              dispatch_key_included (snd (disableProfiler w1)) = dispatch_key_included w1)
    | Inl err \<Rightarrow>
        profiler_nested_depth (snd (disableProfiler w1)) = profiler_nested_depth w1 \<and>
        callbacks (snd (disableProfiler w1)) = callbacks w1 \<and>
        dispatch_key_included (snd (disableProfiler w1)) = dispatch_key_included w1"
  proof (cases "fst (disableProfiler w1)")
    case (Inl err)
    then show ?thesis using disable_failed [OF Inl] by simp
  next
    case (Inr r)
    then show ?thesis
      by (simp add: disable_depth [OF Inr] disable_callbacks [OF Inr] disable_flag [OF Inr])
  qed
  have st: "if v \<noteq> 0
    then profiler_nested_depth (profiler_setter v w2) = profiler_nested_depth w2 + 1 \<and>
         callbacks (profiler_setter v w2) =
           (if profiler_nested_depth w2 = 0 then Some False else callbacks w2)
    else profiler_nested_depth (profiler_setter v w2) = profiler_nested_depth w2 - 1 \<and>
         callbacks (profiler_setter v w2) =
           (if profiler_nested_depth w2 = 1 then None else callbacks w2)"
    using setter_push [of v w2] setter_pop [of w2] by (cases "v = 0") simp_all
  have sf: "dispatch_key_included (profiler_setter v w2) = dispatch_key_included w2"
    using setter_push [of v w2] setter_pop [of w2] by (cases "v = 0") simp_all
  from en dis st sf show ?thesis by (intro conjI)
qed

theorem callbacks_follow_depth_transitions_witness:
  "fst (enableProfiler cpu_shapes initial_tls) = None \<and>
   profiler_nested_depth initial_tls = 0 \<and>
   profiler_nested_depth (snd (enableProfiler cpu_shapes initial_tls)) = 1 \<and>
   callbacks (snd (enableProfiler cpu_shapes initial_tls)) = Some True \<and>
   dispatch_key_included (snd (enableProfiler cpu_shapes initial_tls)) \<and>
   callbacks (snd (disableProfiler (snd (enableProfiler cpu_shapes initial_tls)))) = None \<and>
   \<not> dispatch_key_included (snd (disableProfiler (snd (enableProfiler cpu_shapes initial_tls)))) \<and>
   callbacks (profiler_setter 1 initial_tls) = Some False \<and>
   dispatch_key_included (profiler_setter 1 initial_tls) = dispatch_key_included initial_tls"
proof -
  have a: "fst (enableProfiler cpu_shapes initial_tls) = None"
    by code_simp
  have b: "profiler_nested_depth initial_tls = 0" "report_input_shapes cpu_shapes"
    by code_simp+
  have c: "profiler_nested_depth (snd (enableProfiler cpu_shapes initial_tls)) = 1"
    by code_simp
  have "\<not> isl (fst (disableProfiler (snd (enableProfiler cpu_shapes initial_tls))))"
    by code_simp
  then obtain r where d: "fst (disableProfiler (snd (enableProfiler cpu_shapes initial_tls))) = Inr r"
    by (cases "fst (disableProfiler (snd (enableProfiler cpu_shapes initial_tls)))") simp_all
  show ?thesis
    using callbacks_follow_depth_transitions
      [of cpu_shapes initial_tls "snd (enableProfiler cpu_shapes initial_tls)" 1 initial_tls]
      a b c d
    by simp
qed

text \<open>
  C3, as the claim states it, fails at the setter: replayed with a true value
  on a thread at depth 0 it takes the depth to 1 and installs the callback
  pair, and the dispatch flag is still clear.
\<close>

theorem setter_leaves_flag_counterexample:
  "profiler_nested_depth initial_tls = 0 \<and>
   profiler_nested_depth (profiler_setter 1 initial_tls) = 1 \<and>
   callbacks (profiler_setter 1 initial_tls) = Some False \<and>
   \<not> dispatch_key_included (profiler_setter 1 initial_tls)"
  by (simp add: initial_tls_def profiler_setter_def Let_def tls_ops)

text \<open>
  C10. The \<open>needs_inputs\<close> parameter of the installed callback pair is fixed
  when the depth goes from 0 to 1 and cannot change before the depth returns
  to 0: over any run of operations during which the depth stays at 1 or more
  the callback pair is the one installed before; in particular a nested
  \<open>enableProfiler\<close> leaves it alone whatever \<open>report_input_shapes\<close> its config
  has. The first \<open>enableProfiler\<close> installs the pair with its config's
  \<open>report_input_shapes\<close>; the setter, and so the start of a spawned task,
  installs it with \<open>needs_inputs\<close> false.
\<close>

theorem needs_inputs_fixed_while_nested:
  "(profiler_nested_depth w \<ge> 1 \<longrightarrow> stays_nested ops w \<longrightarrow>
      callbacks (fold step ops w) = callbacks w) \<and>
   (profiler_nested_depth w1 \<noteq> 0 \<longrightarrow> callbacks (snd (enableProfiler c1 w1)) = callbacks w1) \<and>
   (profiler_nested_depth w2 = 0 \<longrightarrow> fst (enableProfiler c2 w2) = None \<longrightarrow>
      callbacks (snd (enableProfiler c2 w2)) = Some (report_input_shapes c2)) \<and>
   (profiler_nested_depth w3 = 0 \<longrightarrow> v \<noteq> 0 \<longrightarrow>
      callbacks (profiler_setter v w3) = Some False) \<and>
   (profiler_nested_depth parent > 0 \<longrightarrow> profiler_nested_depth worker = 0 \<longrightarrow>
      callbacks (spawn_task parent worker) = Some False)"
  using run_keeps_callbacks [of w ops] enable_nested_callbacks [of w1 c1]
    enable_callbacks [of c2 w2] setter_push [of v w3] spawn_callbacks [of parent worker]
  by simp

theorem needs_inputs_fixed_while_nested_witness:
  "profiler_nested_depth (snd (enableProfiler cpu_shapes initial_tls)) \<ge> 1 \<and>
   stays_nested [Enable cpu_plain, ScopeEnter matmul, ScopeExit matmul, Disable]
     (snd (enableProfiler cpu_shapes initial_tls)) \<and>
   callbacks (fold step [Enable cpu_plain, ScopeEnter matmul, ScopeExit matmul, Disable]
                (snd (enableProfiler cpu_shapes initial_tls))) = Some True \<and>
   callbacks (snd (enableProfiler cpu_plain (snd (enableProfiler cpu_shapes initial_tls))))
     = Some True \<and>
   callbacks (snd (enableProfiler cpu_shapes initial_tls)) = Some True \<and>
   callbacks (profiler_setter 1 initial_tls) = Some False \<and>
   callbacks (spawn_task (snd (enableProfiler cpu_shapes initial_tls)) initial_tls) = Some False"
proof -
  let ?w = "snd (enableProfiler cpu_shapes initial_tls)"
  let ?ops = "[Enable cpu_plain, ScopeEnter matmul, ScopeExit matmul, Disable]"
  have a: "profiler_nested_depth ?w \<ge> 1" "profiler_nested_depth ?w \<noteq> 0"
    "profiler_nested_depth ?w > 0"
    by code_simp+
  have b: "stays_nested ?ops ?w"
    by code_simp
  have c: "profiler_nested_depth initial_tls = 0" "fst (enableProfiler cpu_shapes initial_tls) = None"
    "report_input_shapes cpu_shapes" "callbacks ?w = Some True"
    by code_simp+
  show ?thesis
    using needs_inputs_fixed_while_nested
      [of ?w ?ops ?w cpu_plain initial_tls cpu_shapes initial_tls 1
          ?w initial_tls]
      a b c
    by simp
qed

text \<open>
  C5. In NVTX mode \<open>mark\<close>, \<open>pushRange\<close> and \<open>popRange\<close> make exactly one call
  to the backend (\<open>nvtxMarkA\<close>, \<open>nvtxRangePushA\<close>, \<open>nvtxRangePop\<close>) and leave the
  session, and with it every event list, as it was; the callbacks leave the
  registry as it was; and \<open>disableProfiler\<close> of an NVTX session returns the
  empty result.
\<close>

theorem nvtx_never_buffers:
  "state (config st) = NVTX \<Longrightarrow>
   mark name include_cuda (st, e) = (st, stub_call (NvtxMarkA name) e) \<and>
   pushRange name msg sequence_nr shps (st, e) =
     (st, stub_call (NvtxRangePushA (nvtx_message name msg sequence_nr shps)) e) \<and>
   popRange (st, e) = (st, stub_call NvtxRangePop e) \<and>
   (debug_info w = st # rest \<longrightarrow>
      debug_info (start_callback needs_inputs fn w) = debug_info w \<and>
      debug_info (end_callback fn w) = debug_info w \<and>
      fst (disableProfiler w) = Inr [] \<and>
      debug_info (snd (disableProfiler w)) = rest \<and>
      environment (snd (disableProfiler w)) = environment w)"
proof -
  assume n: "state (config st) = NVTX"
  have m: "mark name include_cuda (st, e) = (st, stub_call (NvtxMarkA name) e)"
    using n by (simp add: mark_def)
  have pu: "pushRange name msg sequence_nr shps (st, e) =
      (st, stub_call (NvtxRangePushA (nvtx_message name msg sequence_nr shps)) e)"
    using n by (simp add: pushRange_def)
  have po: "popRange (st, e) = (st, stub_call NvtxRangePop e)"
    using n by (simp add: popRange_def)
  have cb: "debug_info w = st # rest \<longrightarrow>
      debug_info (start_callback needs_inputs fn w) = debug_info w \<and>
      debug_info (end_callback fn w) = debug_info w"
    using n
    by (simp add: start_callback_def end_callback_def ThreadLocalDebugInfo_get_def
          on_current_def pushRange_def popRange_def Let_def)
  have di: "debug_info w = st # rest \<longrightarrow>
      fst (disableProfiler w) = Inr [] \<and>
      debug_info (snd (disableProfiler w)) = rest \<and>
      environment (snd (disableProfiler w)) = environment w"
    using n by (simp add: disableProfiler_def Let_def tls_ops)
  from m pu po cb di show ?thesis by simp
qed

theorem nvtx_never_buffers_witness:
  "state (config (new_ProfilerThreadLocalState nvtx_plain)) = NVTX \<and>
   debug_info (snd (enableProfiler nvtx_plain cuda_tls)) = [new_ProfilerThreadLocalState nvtx_plain] \<and>
   pushRange ''matmul'' '', seq = '' 7 [[2, 3], []]
       (new_ProfilerThreadLocalState nvtx_plain, initial_env) =
     (new_ProfilerThreadLocalState nvtx_plain,
      stub_call (NvtxRangePushA ''matmul, seq = 7, sizes = [[2, 3], []]'') initial_env) \<and>
   fst (disableProfiler (snd (enableProfiler nvtx_plain cuda_tls))) = Inr []"
proof -
  have a: "state (config (new_ProfilerThreadLocalState nvtx_plain)) = NVTX"
    by code_simp
  have b: "debug_info (snd (enableProfiler nvtx_plain cuda_tls)) =
      new_ProfilerThreadLocalState nvtx_plain # []"
    by code_simp
  have c: "nvtx_message ''matmul'' '', seq = '' 7 [[2, 3], []] =
      ''matmul, seq = 7, sizes = [[2, 3], []]''"
    by code_simp
  show ?thesis
    using nvtx_never_buffers [OF a, of "''matmul''" True initial_env "'', seq = ''" 7
        "[[2, 3], []]" "snd (enableProfiler nvtx_plain cuda_tls)" "[]" True matmul]
      a b c
    by simp
qed

text \<open>
  C6. \<open>cuda_elapsed_us\<close> raises an error whenever one of the two events has no
  device handle and whenever the two handles are on different devices; the
  result is then the error, and no elapsed value.
\<close>

theorem cuda_elapsed_us_errors:
  "\<not> has_cuda this \<or> \<not> has_cuda e \<or> device e \<noteq> device this \<Longrightarrow>
   cuda_elapsed_us elapsed this e =
     Inl (if \<not> has_cuda e \<or> \<not> has_cuda this then NotRecordedForCUDA else NotSameDevice)"
  by (auto simp add: cuda_elapsed_us_def)

theorem cuda_elapsed_us_errors_witness:
  "has_cuda (device_event 4 0) \<and> has_cuda (device_event 5 1) \<and>
   device (device_event 5 1) \<noteq> device (device_event 4 0) \<and>
   cuda_elapsed_us (\<lambda>h1 h2. int h2 - int h1) (device_event 4 0) (device_event 5 1)
     = Inl NotSameDevice \<and>
   \<not> has_cuda (cpu_event Mark ''m'' 0) \<and>
   cuda_elapsed_us (\<lambda>h1 h2. int h2 - int h1) (device_event 4 0) (cpu_event Mark ''m'' 0)
     = Inl NotRecordedForCUDA"
proof -
  have h: "has_cuda (device_event 4 0)" "has_cuda (device_event 5 1)"
    "\<not> has_cuda (cpu_event Mark ''m'' 0)"
    by (simp_all add: has_cuda_def device_event_def cpu_event_def)
  have d: "device (device_event 5 1) \<noteq> device (device_event 4 0)"
    by (simp add: device_event_def)
  have a: "\<not> has_cuda (device_event 4 0) \<or> \<not> has_cuda (device_event 5 1) \<or>
      device (device_event 5 1) \<noteq> device (device_event 4 0)"
    using d by simp
  have b: "\<not> has_cuda (device_event 4 0) \<or> \<not> has_cuda (cpu_event Mark ''m'' 0) \<or>
      device (cpu_event Mark ''m'' 0) \<noteq> device (device_event 4 0)"
    using h(3) by simp
  show ?thesis
    using h d cuda_elapsed_us_errors [OF a, of "\<lambda>h1 h2. int h2 - int h1"]
      cuda_elapsed_us_errors [OF b, of "\<lambda>h1 h2. int h2 - int h1"]
    by simp
qed

text \<open>
  C7. \<open>processEvents\<close> looks for the event named "__start_profile"; when no
  event has that name it fails, and the stream is as it was before the call:
  nothing of the trace has been written.
\<close>

theorem export_without_start_fails:
  "\<forall>e \<in> set events. ev_name e \<noteq> ''__start_profile'' \<Longrightarrow>
   processEvents format cpu_elapsed_us out events =
     (Some (if good out then CouldNotFindStart else CouldNotOpenFile), out)"
proof -
  assume "\<forall>e \<in> set events. ev_name e \<noteq> ''__start_profile''"
  then have "find_start events = None"
    by (induction events) simp_all
  then show ?thesis
    by (simp add: processEvents_def)
qed

theorem export_without_start_fails_witness:
  "map ev_name (tl sample_trace) = [''outer'', ''inner'', ''note'', [], []] \<and>
   processEvents sample_format sample_elapsed good_stream (tl sample_trace) =
     (Some CouldNotFindStart, good_stream)"
proof -
  have n: "map ev_name (tl sample_trace) = [''outer'', ''inner'', ''note'', [], []]"
    by (simp add: sample_trace_def cpu_event_def)
  have a: "\<forall>e \<in> set (tl sample_trace). ev_name e \<noteq> ''__start_profile''"
    by (simp add: sample_trace_def cpu_event_def)
  show ?thesis
    using n export_without_start_fails [OF a, of sample_format sample_elapsed good_stream]
    by (simp add: good_stream_def)
qed

subsection \<open>The exporter on well-nested sequences\<close>

lemma emit_append:
  "emit f first (xs @ ys) = emit f first xs @ emit f (first \<and> xs = []) ys"
  by (induction xs arbitrary: first) simp_all

lemma emit_False: "emit f False rs = concat (map (\<lambda>r. '',\<newline>'' @ f r) rs)"
  by (induction rs) simp_all

lemma separated_Cons: "separated sep (x # xs) = x @ concat (map (\<lambda>y. sep @ y) xs)"
  by (induction xs arbitrary: x) simp_all

lemma emit_True: "emit f True rs = separated '',\<newline>'' (map f rs)"
  by (cases rs) (simp_all add: separated_Cons emit_False comp_def)

lemma put_str_put_str: "put_str t (put_str s out) = put_str (s @ t) out"
  by (simp add: put_str_def)

lemma put_str_empty: "put_str [] out = out"
  by (simp add: put_str_def)

text \<open>
  The loop on a well-nested sequence followed by anything: the stack is back
  where it was when the sequence ends, and the records of the sequence have
  been written. Rule induction on the derivation, with the loop state and the
  rest of the input generalised.
\<close>

lemma process_loop_well_nested:
  "well_nested_records el start es rs \<Longrightarrow>
   process_loop fmt el start (es @ todo) (stack, first, out) =
   process_loop fmt el start todo
     (stack, first \<and> rs = [], put_str (emit (fmt event_template) first rs) out)"
proof (induction arbitrary: stack first out todo rule: well_nested_records.induct)
  case wn_empty
  then show ?case by (simp add: put_str_empty)
next
  case (wn_mark m es rs)
  then show ?case by simp
next
  case (wn_range p q inner rs1 rest rs2)
  let ?r = "\<lparr>t_name = ev_name p, t_ts = el start p, t_dur = el p q, t_tid = thread_id p\<rparr>"
  let ?first1 = "first \<and> rs1 = []"
  let ?out1 = "put_str (emit (fmt event_template) first rs1) out"
  let ?out2 = "put_str (fmt event_template ?r)
                 (if \<not> ?first1 then put_str '',\<newline>'' ?out1 else ?out1)"
  have "process_loop fmt el start ((p # inner @ q # rest) @ todo) (stack, first, out) =
        process_loop fmt el start (inner @ (q # rest @ todo)) (stack @ [p], first, out)"
    using wn_range.hyps(1) by simp
  also have "\<dots> = process_loop fmt el start (q # rest @ todo) (stack @ [p], ?first1, ?out1)"
    by (rule wn_range.IH(1))
  also have "\<dots> = process_loop fmt el start (rest @ todo) (stack, False, ?out2)"
    using wn_range.hyps(2) by (simp add: Let_def)
  also have "\<dots> = process_loop fmt el start todo
      (stack, False \<and> rs2 = [], put_str (emit (fmt event_template) False rs2) ?out2)"
    by (rule wn_range.IH(2))
  also have "put_str (emit (fmt event_template) False rs2) ?out2 =
      put_str (emit (fmt event_template) first (rs1 @ ?r # rs2)) out"
    by (simp add: emit_append put_str_put_str)
  finally show ?case by simp
qed

lemma well_nested_count:
  "well_nested_records el start es rs \<Longrightarrow>
   length rs = length (filter (\<lambda>e. ev_kind e = PopRange) es)"
  by (induction rule: well_nested_records.induct) simp_all

lemma sample_trace_well_nested:
  "well_nested_records sample_elapsed (hd sample_trace) sample_trace
     [\<lparr>t_name = ''inner'', t_ts = 3, t_dur = 2, t_tid = 3\<rparr>,
      \<lparr>t_name = ''outer'', t_ts = 2, t_dur = 6, t_tid = 3\<rparr>]"
proof -
  let ?s = "cpu_event Mark ''__start_profile'' 1000"
  let ?po = "cpu_event PushRange ''outer'' 3000"
  let ?pi = "cpu_event PushRange ''inner'' 4000"
  let ?n = "cpu_event Mark ''note'' 5000"
  let ?q1 = "cpu_event PopRange [] 6000"
  let ?q2 = "cpu_event PopRange [] 9000"
  let ?ri = "\<lparr>t_name = ev_name ?pi, t_ts = sample_elapsed ?s ?pi,
              t_dur = sample_elapsed ?pi ?q1, t_tid = thread_id ?pi\<rparr>"
  let ?ro = "\<lparr>t_name = ev_name ?po, t_ts = sample_elapsed ?s ?po,
              t_dur = sample_elapsed ?po ?q2, t_tid = thread_id ?po\<rparr>"
  have k: "ev_kind ?s = Mark" "ev_kind ?po = PushRange" "ev_kind ?pi = PushRange"
    "ev_kind ?n = Mark" "ev_kind ?q1 = PopRange" "ev_kind ?q2 = PopRange"
    by (simp_all add: cpu_event_def)
  have i0: "well_nested_records sample_elapsed ?s [?n] []"
    by (rule wn_mark [OF k(4) wn_empty])
  have i1: "well_nested_records sample_elapsed ?s (?pi # [?n] @ ?q1 # []) ([] @ ?ri # [])"
    by (rule wn_range [OF k(3) k(5) i0 wn_empty])
  have i2: "well_nested_records sample_elapsed ?s
      (?po # (?pi # [?n] @ ?q1 # []) @ ?q2 # []) (([] @ ?ri # []) @ ?ro # [])"
    by (rule wn_range [OF k(2) k(6) i1 wn_empty])
  have "well_nested_records sample_elapsed ?s
      (?s # ?po # (?pi # [?n] @ ?q1 # []) @ ?q2 # []) (([] @ ?ri # []) @ ?ro # [])"
    by (rule wn_mark [OF k(1) i2])
  then show ?thesis
    by (simp add: sample_trace_def cpu_event_def sample_elapsed_def)
qed

text \<open>
  C8. On a well-nested event sequence in which the start event is found, the
  exporter writes an opening bracket, one record for every PopRange in the
  order of arrival, separated by commas, and a closing bracket. The record of
  a PopRange carries the name of the PushRange it closes, the elapsed CPU time
  from the start event to that PushRange, the elapsed CPU time from that
  PushRange to the PopRange, and the PushRange's thread id. Marks give no
  record: there are as many records as PopRanges.
\<close>

theorem export_well_nested:
  "good out \<Longrightarrow> find_start events = Some start \<Longrightarrow>
   well_nested_records cpu_elapsed_us start events rs \<Longrightarrow>
   processEvents format cpu_elapsed_us out events =
     (None, out\<lparr>contents := contents out @ ''[\<newline>''
               @ separated '',\<newline>'' (map (format event_template) rs) @ '']\<newline>''\<rparr>) \<and>
   length rs = length (filter (\<lambda>e. ev_kind e = PopRange) events)"
proof -
  assume g: "good out" and f: "find_start events = Some start"
    and w: "well_nested_records cpu_elapsed_us start events rs"
  have "process_loop format cpu_elapsed_us start (events @ [])
          ([], True, put_str ''[\<newline>'' out) =
        process_loop format cpu_elapsed_us start []
          ([], True \<and> rs = [],
           put_str (emit (format event_template) True rs) (put_str ''[\<newline>'' out))"
    by (rule process_loop_well_nested [OF w])
  then have "process_loop format cpu_elapsed_us start events
          ([], True, put_str ''[\<newline>'' out) =
        (None, [], rs = [],
         put_str (''[\<newline>'' @ separated '',\<newline>'' (map (format event_template) rs)) out)"
    by (simp add: emit_True put_str_put_str)
  then have "processEvents format cpu_elapsed_us out events =
     (None, put_str ((''[\<newline>'' @ separated '',\<newline>'' (map (format event_template) rs))
                     @ '']\<newline>'') out)"
    using g f by (simp add: processEvents_def put_str_put_str)
  then show ?thesis
    using well_nested_count [OF w] by (simp add: put_str_def)
qed

theorem export_well_nested_witness:
  "good good_stream \<and> find_start sample_trace = Some (hd sample_trace) \<and>
   well_nested_records sample_elapsed (hd sample_trace) sample_trace
     [\<lparr>t_name = ''inner'', t_ts = 3, t_dur = 2, t_tid = 3\<rparr>,
      \<lparr>t_name = ''outer'', t_ts = 2, t_dur = 6, t_tid = 3\<rparr>] \<and>
   processEvents sample_format sample_elapsed good_stream sample_trace =
     (None, \<lparr>good = True, contents = ''[\<newline>inner 3 2 3,\<newline>outer 2 6 3]\<newline>''\<rparr>)"
proof -
  have a: "good good_stream"
    by (simp add: good_stream_def)
  have b: "find_start sample_trace = Some (hd sample_trace)"
    by (simp add: sample_trace_def cpu_event_def)
  have c: "map (sample_format event_template)
      [\<lparr>t_name = ''inner'', t_ts = 3, t_dur = 2, t_tid = 3\<rparr>,
       \<lparr>t_name = ''outer'', t_ts = 2, t_dur = 6, t_tid = 3\<rparr>] =
      [''inner 3 2 3'', ''outer 2 6 3'']"
    by code_simp
  show ?thesis
    using export_well_nested [OF a b sample_trace_well_nested, of sample_format]
      a b c sample_trace_well_nested
    by (simp add: good_stream_def)
qed

subsection \<open>What recording adds to the event list of the calling thread\<close>

lemma map_of_map_upd:
  "map_of (map (\<lambda>(t, l). if t = tid then (t, g l) else (t, l)) xs) k =
     (if k = tid then map_option g (map_of xs k) else map_of xs k)"
  by (induction xs) auto

lemma new_Event_fst:
  "fst (new_Event k n t rc shp e) =
     \<lparr>ev_kind = k, ev_name = n, thread_id = t, shapes = shp, cpu_ns = getTime e,
      event = (if rc then Some (next_event e) else None),
      device = (if rc then current_device e else - 1)\<rparr>"
  by (simp add: new_Event_def Event_record_def stubs_record_def)

lemma new_Event_snd [simp]:
  "currentThreadId (snd (new_Event k n t rc shp e)) = currentThreadId e"
  "cuda_stubs (snd (new_Event k n t rc shp e)) = cuda_stubs e"
  "current_device (snd (new_Event k n t rc shp e)) = current_device e"
  by (simp_all add: new_Event_def Event_record_def stubs_record_def stub_call_def)

lemma list_record_events:
  "events_of (currentThreadId e) (fst (list_record k n t rc shp (st, e))) =
     events_of (currentThreadId e) st @ [fst (new_Event k n t rc shp e)]"
  by (auto simp add: list_record_def getEventList_def events_of_def map_of_map_upd Let_def
        map_add_def split: prod.splits option.splits)

lemma list_record_rest [simp]:
  "config (fst (list_record k n t rc shp (st, e))) = config st"
  "snd (list_record k n t rc shp (st, e)) = snd (new_Event k n t rc shp e)"
  by (simp_all add: list_record_def getEventList_def Let_def split: prod.splits option.splits)

lemma mark_frame [simp]:
  "frame (mark n ic x) = frame x"
  "current_device (snd (mark n ic x)) = current_device (snd x)"
  by (cases x; simp add: frame_def mark_def stub_call_def)+

lemma synchronize_frame [simp]:
  "frame (synchronize x) = frame x"
  "current_device (snd (synchronize x)) = current_device (snd x)"
  "recorded (synchronize x) = recorded x"
  by (cases x; simp add: frame_def synchronize_def stub_call_def recorded_def)+

lemma mark_recorded:
  "state (fst (frame x)) = CUDA \<or> state (fst (frame x)) = CPU \<Longrightarrow>
   recorded (mark n ic x) =
     recorded x @ [(n, Mark, ic \<and> state (fst (frame x)) = CUDA,
                    if ic \<and> state (fst (frame x)) = CUDA then current_device (snd x) else - 1)]"
  by (cases x)
     (auto simp add: frame_def mark_def recorded_def list_record_events new_Event_fst
        handle_view_def has_cuda_def)

lemma frame_eqD:
  "frame x = frame y \<Longrightarrow>
   config (fst x) = config (fst y) \<and> currentThreadId (snd x) = currentThreadId (snd y) \<and>
   cuda_stubs (snd x) = cuda_stubs (snd y)"
  by (simp add: frame_def)

lemma set_device_frame [simp]:
  "frame (st, e\<lparr>current_device := d\<rparr>) = frame (st, e)"
  "recorded (st, e\<lparr>current_device := d\<rparr>) = recorded (st, e)"
  by (simp_all add: frame_def recorded_def)

lemma fold_devices:
  "(\<And>d x. state (fst (frame x)) = CUDA \<Longrightarrow>
      frame (op d x) = frame x \<and> current_device (snd (op d x)) = current_device (snd x) \<and>
      recorded (op d x) = recorded x @ [(n, Mark, True, current_device (snd x))]) \<Longrightarrow>
   state (fst (frame (st, e))) = CUDA \<Longrightarrow>
   frame (fold (\<lambda>d (s, x). op d (s, x\<lparr>current_device := d\<rparr>)) ds (st, e)) = frame (st, e) \<and>
   recorded (fold (\<lambda>d (s, x). op d (s, x\<lparr>current_device := d\<rparr>)) ds (st, e)) =
     recorded (st, e) @ map (\<lambda>d. (n, Mark, True, d)) ds"
proof (induction ds arbitrary: st e)
  case Nil
  then show ?case by simp
next
  case (Cons d ds)
  let ?y = "op d (st, e\<lparr>current_device := d\<rparr>)"
  have c: "state (fst (frame (st, e\<lparr>current_device := d\<rparr>))) = CUDA"
    using Cons.prems(2) by simp
  have y: "frame ?y = frame (st, e)" "recorded ?y = recorded (st, e) @ [(n, Mark, True, d)]"
    using Cons.prems(1) [OF c, of d] by simp_all
  obtain st1 e1 where p: "?y = (st1, e1)"
    by (cases ?y)
  have c1: "state (fst (frame (st1, e1))) = CUDA"
    using y(1) p Cons.prems(2) by simp
  have "frame (fold (\<lambda>d (s, x). op d (s, x\<lparr>current_device := d\<rparr>)) ds (st1, e1)) = frame (st1, e1) \<and>
        recorded (fold (\<lambda>d (s, x). op d (s, x\<lparr>current_device := d\<rparr>)) ds (st1, e1)) =
          recorded (st1, e1) @ map (\<lambda>d. (n, Mark, True, d)) ds"
    by (rule Cons.IH [OF Cons.prems(1) c1])
  then show ?case
    using y p by simp
qed

lemma onEachDevice_marks:
  "(\<And>d x. state (fst (frame x)) = CUDA \<Longrightarrow>
      frame (op d x) = frame x \<and> current_device (snd (op d x)) = current_device (snd x) \<and>
      recorded (op d x) = recorded x @ [(n, Mark, True, current_device (snd x))]) \<Longrightarrow>
   state (fst (frame x)) = CUDA \<Longrightarrow>
   frame (onEachDevice op x) = frame x \<and>
   current_device (snd (onEachDevice op x)) = current_device (snd x) \<and>
   recorded (onEachDevice op x) =
     recorded x @ map (\<lambda>d. (n, Mark, True, d)) (stub_devices (cuda_stubs (snd x)))"
proof -
  assume o: "\<And>d x. state (fst (frame x)) = CUDA \<Longrightarrow>
      frame (op d x) = frame x \<and> current_device (snd (op d x)) = current_device (snd x) \<and>
      recorded (op d x) = recorded x @ [(n, Mark, True, current_device (snd x))]"
    and c: "state (fst (frame x)) = CUDA"
  obtain st e where x: "x = (st, e)"
    by (cases x)
  let ?y = "fold (\<lambda>d (s, x). op d (s, x\<lparr>current_device := d\<rparr>)) (stub_devices (cuda_stubs e)) (st, e)"
  have f: "frame ?y = frame (st, e) \<and>
      recorded ?y = recorded (st, e) @ map (\<lambda>d. (n, Mark, True, d)) (stub_devices (cuda_stubs e))"
    using c x by (intro fold_devices [OF o]) simp_all
  obtain st1 e1 where y: "?y = (st1, e1)"
    by (cases ?y)
  have "onEachDevice op x = (st1, e1\<lparr>current_device := current_device e\<rparr>)"
    using x y by (simp add: onEachDevice_def)
  then show ?thesis
    using f x y by simp
qed

lemma concat_replicate_snoc:
  "concat (replicate k xs) @ xs = xs @ concat (replicate k xs)"
  by (induction k) simp_all

lemma warmup_marks:
  "state (fst (frame x)) = CUDA \<Longrightarrow>
   frame (((onEachDevice (\<lambda>d x. synchronize (mark n True x))) ^^ k) x) = frame x \<and>
   current_device (snd (((onEachDevice (\<lambda>d x. synchronize (mark n True x))) ^^ k) x)) =
     current_device (snd x) \<and>
   recorded (((onEachDevice (\<lambda>d x. synchronize (mark n True x))) ^^ k) x) =
     recorded x @ concat (replicate k (map (\<lambda>d. (n, Mark, True, d))
                                          (stub_devices (cuda_stubs (snd x)))))"
proof (induction k)
  case 0
  then show ?case by simp
next
  case (Suc k)
  let ?y = "((onEachDevice (\<lambda>d x. synchronize (mark n True x))) ^^ k) x"
  have ih: "frame ?y = frame x" "current_device (snd ?y) = current_device (snd x)"
    "recorded ?y = recorded x @ concat (replicate k (map (\<lambda>d. (n, Mark, True, d))
                                          (stub_devices (cuda_stubs (snd x)))))"
    using Suc by simp_all
  have c: "state (fst (frame ?y)) = CUDA"
    using ih(1) Suc.prems by simp
  have s: "cuda_stubs (snd ?y) = cuda_stubs (snd x)"
    using frame_eqD [OF ih(1)] by simp
  have "frame (onEachDevice (\<lambda>d x. synchronize (mark n True x)) ?y) = frame ?y \<and>
        current_device (snd (onEachDevice (\<lambda>d x. synchronize (mark n True x)) ?y)) =
          current_device (snd ?y) \<and>
        recorded (onEachDevice (\<lambda>d x. synchronize (mark n True x)) ?y) =
          recorded ?y @ map (\<lambda>d. (n, Mark, True, d)) (stub_devices (cuda_stubs (snd ?y)))"
    by (rule onEachDevice_marks [OF _ c]) (simp add: mark_recorded)
  then show ?case
    using ih s by (simp add: concat_replicate_snoc)
qed

lemma on_current_Cons:
  "debug_info w = st # rest \<Longrightarrow>
   on_current f w =
     w\<lparr>debug_info := fst (f (st, environment w)) # rest,
       environment := snd (f (st, environment w))\<rparr>"
  by (simp add: on_current_def split: prod.splits)

lemma recorded_new [simp]: "recorded (new_ProfilerThreadLocalState c, e) = []"
  by (simp add: recorded_def events_of_def new_ProfilerThreadLocalState_def)

lemma frame_new [simp]:
  "frame (new_ProfilerThreadLocalState c, e) = (c, currentThreadId e, cuda_stubs e)"
  by (simp add: frame_def new_ProfilerThreadLocalState_def)

lemma enable_started:
  "fst (enableProfiler c w) = None \<Longrightarrow>
   debug_info (snd (enableProfiler c w)) = fst (started c (environment w)) # debug_info w \<and>
   environment (snd (enableProfiler c w)) = snd (started c (environment w))"
  by (auto simp add: enableProfiler_def started_def Let_def tls_ops on_current_Cons
        split: if_splits)

lemma started_frame:
  "frame (started c e) = (c, currentThreadId e, cuda_stubs e)"
proof (cases "state c = CUDA")
  case False
  then show ?thesis by (simp add: started_def)
next
  case True
  let ?x = "(new_ProfilerThreadLocalState c, e)"
  let ?y = "((onEachDevice (\<lambda>d x. synchronize (mark ''__cuda_startup'' True x))) ^^ kCUDAWarmupStart) ?x"
  have x: "state (fst (frame ?x)) = CUDA"
    using True by simp
  have y: "frame ?y = frame ?x"
    using warmup_marks [OF x] by simp
  then have c: "state (fst (frame ?y)) = CUDA"
    using x by simp
  have "frame (onEachDevice (\<lambda>d. mark ''__cuda_start_event'' True) ?y) = frame ?y"
    using onEachDevice_marks [OF _ c, of "\<lambda>d. mark ''__cuda_start_event'' True" "''__cuda_start_event''"]
    by (simp add: mark_recorded)
  then show ?thesis
    using True y by (simp add: started_def)
qed

lemma started_recorded:
  "state c = CUDA \<or> state c = CPU \<Longrightarrow>
   recorded (started c e) =
     (if state c = CUDA
      then concat (replicate kCUDAWarmupStart
                     (map (\<lambda>d. (''__cuda_startup'', Mark, True, d)) (stub_devices (cuda_stubs e))))
           @ map (\<lambda>d. (''__cuda_start_event'', Mark, True, d)) (stub_devices (cuda_stubs e))
      else [])
     @ [(''__start_profile'', Mark, False, - 1)]"
proof (cases "state c = CUDA")
  case False
  assume "state c = CUDA \<or> state c = CPU"
  then show ?thesis using False by (simp add: started_def mark_recorded)
next
  case True
  let ?x = "(new_ProfilerThreadLocalState c, e)"
  let ?y = "((onEachDevice (\<lambda>d x. synchronize (mark ''__cuda_startup'' True x))) ^^ kCUDAWarmupStart) ?x"
  let ?z = "onEachDevice (\<lambda>d. mark ''__cuda_start_event'' True) ?y"
  have x: "state (fst (frame ?x)) = CUDA"
    using True by simp
  have y: "frame ?y = frame ?x"
    "recorded ?y = concat (replicate kCUDAWarmupStart
        (map (\<lambda>d. (''__cuda_startup'', Mark, True, d)) (stub_devices (cuda_stubs e))))"
    using warmup_marks [OF x] by simp_all
  then have c: "state (fst (frame ?y)) = CUDA"
    using x by simp
  have s: "cuda_stubs (snd ?y) = cuda_stubs e"
    using frame_eqD [OF y(1)] by simp
  have z: "frame ?z = frame ?y"
    "recorded ?z = recorded ?y @ map (\<lambda>d. (''__cuda_start_event'', Mark, True, d))
        (stub_devices (cuda_stubs (snd ?y)))"
    using onEachDevice_marks [OF _ c, of "\<lambda>d. mark ''__cuda_start_event'' True" "''__cuda_start_event''"]
    by (simp_all add: mark_recorded)
  have "state (fst (frame ?z)) = CUDA"
    using z(1) c by simp
  then have "recorded (mark ''__start_profile'' False ?z) =
      recorded ?z @ [(''__start_profile'', Mark, False, - 1)]"
    by (simp add: mark_recorded)
  then show ?thesis
    using True y z s by (simp add: started_def)
qed

lemma find_start_view:
  "map handle_view evs = pre @ [(''__start_profile'', k, h, d)] \<Longrightarrow>
   \<forall>v \<in> set pre. fst v \<noteq> ''__start_profile'' \<Longrightarrow>
   \<exists>ev. find_start evs = Some ev \<and> handle_view ev = (''__start_profile'', k, h, d)"
proof (induction evs arbitrary: pre)
  case Nil
  then show ?case by simp
next
  case (Cons ev evs)
  show ?case
  proof (cases pre)
    case Nil
    then have "handle_view ev = (''__start_profile'', k, h, d)"
      using Cons.prems(1) by simp
    then show ?thesis
      by (simp add: handle_view_def)
  next
    case (Cons v pre1)
    then have v: "handle_view ev = v" and r: "map handle_view evs = pre1 @ [(''__start_profile'', k, h, d)]"
      using Cons.prems(1) by simp_all
    have "fst v \<noteq> ''__start_profile''" and p: "\<forall>v \<in> set pre1. fst v \<noteq> ''__start_profile''"
      using Cons.prems(2) Cons by simp_all
    then have "ev_name ev \<noteq> ''__start_profile''"
      using v by (auto simp add: handle_view_def)
    then show ?thesis
      using Cons.IH [OF r p] by simp
  qed
qed

lemma enable_recording_ok:
  "state c = CUDA \<or> state c = CPU \<Longrightarrow> fst (enableProfiler c w) = None"
  by (auto simp add: enableProfiler_def Let_def)

lemma enable_current_events:
  "fst (enableProfiler c w) = None \<Longrightarrow>
   map handle_view (current_events (snd (enableProfiler c w))) = recorded (started c (environment w))"
  using enable_started [of c w]
  by (simp add: current_events_def ThreadLocalDebugInfo_get_def recorded_def)

lemma start_callback_records:
  "debug_info w = st # rest \<Longrightarrow> state (config st) = CPU \<or> state (config st) = CUDA \<Longrightarrow>
   entry_recorded w (start_callback ni fn w) fn (if ni then map input_size (inputs fn) else [])"
  by (auto simp add: entry_recorded_def start_callback_def ThreadLocalDebugInfo_get_def
        on_current_Cons pushRange_def current_events_def list_record_events new_Event_fst Let_def)

lemma setter_debug_info [simp]: "debug_info (profiler_setter v w) = debug_info w"
  by (simp add: profiler_setter_def Let_def tls_ops)

text \<open>
  C9, as amended. \<open>enableProfiler\<close> in CUDA mode records \<open>kCUDAWarmupStart\<close>
  (five) rounds of one warm-up mark per device, each with a device handle,
  then one start mark per device, each with a device handle; then, in CPU and
  CUDA mode, it records the Mark "__start_profile" without a device handle,
  and that mark is the start event the exporter finds. In Disabled mode
  \<open>enableProfiler\<close> records no event at all.
\<close>

theorem enable_start_marks:
  "(state c = CUDA \<or> state c = CPU \<longrightarrow>
      fst (enableProfiler c w) = None \<and>
      (\<exists>st. debug_info (snd (enableProfiler c w)) = st # debug_info w \<and> config st = c) \<and>
      map handle_view (current_events (snd (enableProfiler c w))) =
        (if state c = CUDA
         then concat (replicate kCUDAWarmupStart
                        (map (\<lambda>d. (''__cuda_startup'', Mark, True, d))
                             (stub_devices (cuda_stubs (environment w)))))
              @ map (\<lambda>d. (''__cuda_start_event'', Mark, True, d))
                    (stub_devices (cuda_stubs (environment w)))
         else [])
        @ [(''__start_profile'', Mark, False, - 1)] \<and>
      (\<exists>ev. find_start (current_events (snd (enableProfiler c w))) = Some ev \<and>
            ev_kind ev = Mark \<and> \<not> has_cuda ev)) \<and>
   (state c1 = Disabled \<longrightarrow>
      fst (enableProfiler c1 w1) = None \<and>
      debug_info (snd (enableProfiler c1 w1)) =
        new_ProfilerThreadLocalState c1 # debug_info w1 \<and>
      environment (snd (enableProfiler c1 w1)) = environment w1 \<and>
      current_events (snd (enableProfiler c1 w1)) = [])"
proof (intro conjI impI)
  assume d: "state c1 = Disabled"
  then show ok1: "fst (enableProfiler c1 w1) = None"
    by (simp add: enableProfiler_def Let_def)
  have s: "started c1 (environment w1) = (new_ProfilerThreadLocalState c1, environment w1)"
    using d by (simp add: started_def mark_def new_ProfilerThreadLocalState_def)
  show top1: "debug_info (snd (enableProfiler c1 w1)) =
      new_ProfilerThreadLocalState c1 # debug_info w1"
    using enable_started [OF ok1] s by simp
  show "environment (snd (enableProfiler c1 w1)) = environment w1"
    using enable_started [OF ok1] s by simp
  show "current_events (snd (enableProfiler c1 w1)) = []"
    using top1
    by (simp add: current_events_def ThreadLocalDebugInfo_get_def events_of_def
          new_ProfilerThreadLocalState_def)
next
  assume m0: "state c = CUDA \<or> state c = CPU"
  let ?w = "snd (enableProfiler c w)"
  let ?pre = "if state c = CUDA
      then concat (replicate kCUDAWarmupStart
                     (map (\<lambda>d. (''__cuda_startup'', Mark, True, d))
                          (stub_devices (cuda_stubs (environment w)))))
           @ map (\<lambda>d. (''__cuda_start_event'', Mark, True, d))
                 (stub_devices (cuda_stubs (environment w)))
      else []"
  show ok: "fst (enableProfiler c w) = None"
    by (rule enable_recording_ok [OF m0])
  have "config (fst (started c (environment w))) = c"
    using started_frame [of c "environment w"] by (simp add: frame_def)
  then show "\<exists>st. debug_info ?w = st # debug_info w \<and> config st = c"
    using enable_started [OF ok] by simp
  show ev: "map handle_view (current_events ?w) =
      ?pre @ [(''__start_profile'', Mark, False, - 1)]"
    using enable_current_events [OF ok] started_recorded [OF m0, of "environment w"] by simp
  have "\<forall>v \<in> set ?pre. fst v \<noteq> ''__start_profile''"
    by auto
  from find_start_view [OF ev this]
  show "\<exists>ev. find_start (current_events ?w) = Some ev \<and> ev_kind ev = Mark \<and> \<not> has_cuda ev"
    by (auto simp add: handle_view_def)
qed

theorem enable_start_marks_witness:
  "(state cuda_plain = CUDA \<or> state cuda_plain = CPU) \<and>
   map handle_view (current_events (snd (enableProfiler cuda_plain cuda_tls))) =
     [(''__cuda_startup'', Mark, True, 0), (''__cuda_startup'', Mark, True, 1),
      (''__cuda_startup'', Mark, True, 0), (''__cuda_startup'', Mark, True, 1),
      (''__cuda_startup'', Mark, True, 0), (''__cuda_startup'', Mark, True, 1),
      (''__cuda_startup'', Mark, True, 0), (''__cuda_startup'', Mark, True, 1),
      (''__cuda_startup'', Mark, True, 0), (''__cuda_startup'', Mark, True, 1),
      (''__cuda_start_event'', Mark, True, 0), (''__cuda_start_event'', Mark, True, 1),
      (''__start_profile'', Mark, False, - 1)] \<and>
   state disabled_plain = Disabled \<and>
   current_events (snd (enableProfiler disabled_plain initial_tls)) = []"
proof -
  have a: "state cuda_plain = CUDA \<or> state cuda_plain = CPU"
    by (simp add: cuda_plain_def)
  have b: "state cuda_plain = CUDA"
    by (simp add: cuda_plain_def)
  have c: "stub_devices (cuda_stubs (environment cuda_tls)) = [0, 1]"
    by (simp add: cuda_tls_def registerCUDAMethods_def two_devices_def)
  have d: "kCUDAWarmupStart = Suc (Suc (Suc (Suc (Suc 0))))"
    by (simp add: kCUDAWarmupStart_def)
  have e: "state disabled_plain = Disabled"
    by (simp add: disabled_plain_def)
  show ?thesis
    using enable_start_marks [of cuda_plain cuda_tls disabled_plain initial_tls] a b c e
    by (simp add: d)
qed

text \<open>
  C9, as the claim states it, fails for the mode Disabled, which is a mode
  other than NVTX: \<open>enableProfiler\<close> succeeds, pushes the session, and neither
  records a start mark nor calls the backend.
\<close>

theorem enable_disabled_no_start_mark_counterexample:
  "state disabled_plain \<noteq> NVTX \<and>
   fst (enableProfiler disabled_plain initial_tls) = None \<and>
   debug_info (snd (enableProfiler disabled_plain initial_tls)) =
     [\<lparr>config = disabled_plain, event_lists_map = []\<rparr>] \<and>
   stub_calls (environment (snd (enableProfiler disabled_plain initial_tls))) = []"
  by (simp add: enableProfiler_def disabled_plain_def initial_tls_def initial_env_def
        tls_ops on_current_def mark_def new_ProfilerThreadLocalState_def Let_def)

text \<open>
  C4, as amended. Whether a recorded scope entry carries input shapes is
  decided by the \<open>needs_inputs\<close> parameter of the installed callback pair, not
  by the config of the session that is current: with \<open>needs_inputs\<close> true the
  event has one inner sequence per input, empty for an input that is not a
  tensor or is an undefined tensor; with \<open>needs_inputs\<close> false it has no
  shapes. After an \<open>enableProfiler\<close> at depth 0 the parameter is that config's
  \<open>report_input_shapes\<close>; on a spawned task, whose callbacks the setter
  installed, it is false and entries carry no shapes.
\<close>

theorem input_shapes_follow_callback:
  "(debug_info w = st # rest \<and> (state (config st) = CPU \<or> state (config st) = CUDA) \<and>
    callbacks w = Some needs_inputs \<longrightarrow>
      entry_recorded w (scope_enter fn w) fn
        (if needs_inputs then map input_size (inputs fn) else [])) \<and>
   (profiler_nested_depth w1 = 0 \<and> (state c = CPU \<or> state c = CUDA) \<longrightarrow>
      entry_recorded (snd (enableProfiler c w1)) (scope_enter fn (snd (enableProfiler c w1))) fn
        (if report_input_shapes c then map input_size (inputs fn) else [])) \<and>
   (profiler_nested_depth parent > 0 \<and> profiler_nested_depth worker = 0 \<and>
    debug_info parent = st2 # rest2 \<and> (state (config st2) = CPU \<or> state (config st2) = CUDA) \<longrightarrow>
      entry_recorded (spawn_task parent worker) (scope_enter fn (spawn_task parent worker)) fn []) \<and>
   input_size OtherValue = [] \<and> input_size (TensorValue UndefinedTensor) = [] \<and>
   input_size (TensorValue (DefinedTensor s)) = s"
proof -
  have g: "debug_info w = st # rest \<and> (state (config st) = CPU \<or> state (config st) = CUDA) \<and>
    callbacks w = Some needs_inputs \<longrightarrow>
      entry_recorded w (scope_enter fn w) fn
        (if needs_inputs then map input_size (inputs fn) else [])"
    for w st rest needs_inputs
    using start_callback_records [of w st rest needs_inputs fn]
    by (auto simp add: scope_enter_def)
  have e: "profiler_nested_depth w1 = 0 \<and> (state c = CPU \<or> state c = CUDA) \<longrightarrow>
      entry_recorded (snd (enableProfiler c w1)) (scope_enter fn (snd (enableProfiler c w1))) fn
        (if report_input_shapes c then map input_size (inputs fn) else [])"
  proof
    assume h: "profiler_nested_depth w1 = 0 \<and> (state c = CPU \<or> state c = CUDA)"
    then have m: "state c = CUDA \<or> state c = CPU" by blast
    have ok: "fst (enableProfiler c w1) = None"
      by (rule enable_recording_ok [OF m])
    have cfg: "config (fst (started c (environment w1))) = c"
      using started_frame [of c "environment w1"] by (simp add: frame_def)
    have top: "debug_info (snd (enableProfiler c w1)) =
        fst (started c (environment w1)) # debug_info w1"
      using enable_started [OF ok] by simp
    have cb: "callbacks (snd (enableProfiler c w1)) = Some (report_input_shapes c)"
      using enable_callbacks [OF ok] h by simp
    show "entry_recorded (snd (enableProfiler c w1)) (scope_enter fn (snd (enableProfiler c w1))) fn
        (if report_input_shapes c then map input_size (inputs fn) else [])"
      using g [of "snd (enableProfiler c w1)" "fst (started c (environment w1))" "debug_info w1"
          "report_input_shapes c"] top cfg cb h
      by auto
  qed
  have s: "profiler_nested_depth parent > 0 \<and> profiler_nested_depth worker = 0 \<and>
    debug_info parent = st2 # rest2 \<and> (state (config st2) = CPU \<or> state (config st2) = CUDA) \<longrightarrow>
      entry_recorded (spawn_task parent worker) (scope_enter fn (spawn_task parent worker)) fn []"
  proof
    assume h: "profiler_nested_depth parent > 0 \<and> profiler_nested_depth worker = 0 \<and>
      debug_info parent = st2 # rest2 \<and> (state (config st2) = CPU \<or> state (config st2) = CUDA)"
    have cb: "callbacks (spawn_task parent worker) = Some False"
      using h spawn_callbacks by blast
    have top: "debug_info (spawn_task parent worker) = st2 # rest2"
      using h by (simp add: spawn_task_def)
    show "entry_recorded (spawn_task parent worker) (scope_enter fn (spawn_task parent worker)) fn []"
      using g [of "spawn_task parent worker" st2 rest2 False] top cb h
      by auto
  qed
  from g [of w st rest needs_inputs] e s show ?thesis by simp
qed

theorem input_shapes_follow_callback_witness:
  "entry_recorded (snd (enableProfiler cpu_shapes initial_tls))
     (scope_enter matmul (snd (enableProfiler cpu_shapes initial_tls))) matmul [[2, 3], [], []] \<and>
   entry_recorded (snd (enableProfiler cpu_plain initial_tls))
     (scope_enter matmul (snd (enableProfiler cpu_plain initial_tls))) matmul [] \<and>
   entry_recorded (spawn_task (snd (enableProfiler cpu_shapes initial_tls)) initial_tls)
     (scope_enter matmul (spawn_task (snd (enableProfiler cpu_shapes initial_tls)) initial_tls))
     matmul []"
proof -
  let ?p = "snd (enableProfiler cpu_shapes initial_tls)"
  have a: "profiler_nested_depth initial_tls = 0" "state cpu_shapes = CPU" "state cpu_plain = CPU"
    "report_input_shapes cpu_shapes" "\<not> report_input_shapes cpu_plain"
    "map input_size (inputs matmul) = [[2, 3], [], []]"
    by code_simp+
  have b: "profiler_nested_depth ?p > 0" "debug_info ?p = hd (debug_info ?p) # []"
    "state (config (hd (debug_info ?p))) = CPU"
    by code_simp+
  show ?thesis
    using input_shapes_follow_callback
        [of ?p "hd (debug_info ?p)" "[]" True matmul initial_tls cpu_shapes ?p initial_tls
            "hd (debug_info ?p)" "[]"]
      input_shapes_follow_callback
        [of ?p "hd (debug_info ?p)" "[]" True matmul initial_tls cpu_plain ?p initial_tls
            "hd (debug_info ?p)" "[]"]
      a b
    by simp
qed

text \<open>
  C4, as the claim states it, fails twice. On a task spawned from a thread
  whose session has \<open>report_input_shapes\<close> true, the entry is recorded without
  shapes. And in a session with \<open>report_input_shapes\<close> false that is nested in
  one with true, the entry is recorded with shapes.
\<close>

theorem input_shapes_ignore_session_counterexample:
  "map_option (report_input_shapes \<circ> config)
     (ThreadLocalDebugInfo_get (spawn_task (snd (enableProfiler cpu_shapes initial_tls)) initial_tls))
     = Some True \<and>
   map (\<lambda>ev. (ev_kind ev, shapes ev))
     (current_events
        (scope_enter matmul (spawn_task (snd (enableProfiler cpu_shapes initial_tls)) initial_tls)))
     = [(Mark, []), (PushRange, [])] \<and>
   map_option (report_input_shapes \<circ> config)
     (ThreadLocalDebugInfo_get
        (snd (enableProfiler cpu_plain (snd (enableProfiler cpu_shapes initial_tls)))))
     = Some False \<and>
   map (\<lambda>ev. (ev_kind ev, shapes ev))
     (current_events
        (scope_enter matmul
           (snd (enableProfiler cpu_plain (snd (enableProfiler cpu_shapes initial_tls))))))
     = [(Mark, []), (PushRange, [[2, 3], [], []])]"
  by code_simp

end
